theory Spec2Isabelle
  imports Main
begin

section \<open>Python strings\<close>

text \<open>
  A Python \<open>str\<close> is a sequence of Unicode code points, so it is modelled as a list of
  natural numbers (one per code point) rather than as a list of bytes. \<open>lit\<close> turns an
  ASCII literal into such a string.
\<close>

type_synonym str = "nat list"

definition lit :: "string \<Rightarrow> str" where
  "lit s = map of_char s"

text \<open>
  \<open>str.isspace\<close> on one code point: the code points CPython's
  \<open>_PyUnicode_IsWhitespace\<close> accepts.
\<close>

definition isspace :: "nat \<Rightarrow> bool" where
  "isspace c \<longleftrightarrow>
     (9 \<le> c \<and> c \<le> 13) \<or> (28 \<le> c \<and> c \<le> 32) \<or> c = 133 \<or> c = 160 \<or> c = 5760 \<or>
     (8192 \<le> c \<and> c \<le> 8202) \<or> c = 8232 \<or> c = 8233 \<or> c = 8239 \<or> c = 8287 \<or> c = 12288"

text \<open>\<open>s.strip()\<close> without argument removes leading and trailing whitespace.\<close>

definition str_strip :: "str \<Rightarrow> str" where
  "str_strip s = rev (dropWhile isspace (rev (dropWhile isspace s)))"

text \<open>
  \<open>s.replace(old, new)\<close>. For a non-empty \<open>old\<close> the occurrences are replaced from left
  to right without overlap. For an empty \<open>old\<close> Python puts \<open>new\<close> in front of every
  character and at the end: \<open>"ab".replace("", "-") == "-a-b-"\<close>.
\<close>

fun replace_empty :: "str \<Rightarrow> str \<Rightarrow> str" where
  "replace_empty new [] = new"
| "replace_empty new (c # cs) = new @ c # replace_empty new cs"

fun replace_nonempty :: "str \<Rightarrow> str \<Rightarrow> str \<Rightarrow> str" where
  "replace_nonempty old new [] = []"
| "replace_nonempty old new (c # cs) =
     (if take (length old) (c # cs) = old
      then new @ replace_nonempty old new (drop (length old - 1) cs)
      else c # replace_nonempty old new cs)"

definition str_replace :: "str \<Rightarrow> str \<Rightarrow> str \<Rightarrow> str" where
  "str_replace old new s =
     (if old = [] then replace_empty new s else replace_nonempty old new s)"

text \<open>\<open>sep.join(xs)\<close>.\<close>

fun str_join :: "str \<Rightarrow> str list \<Rightarrow> str" where
  "str_join sep [] = []"
| "str_join sep [x] = x"
| "str_join sep (x # y # ys) = x @ sep @ str_join sep (y # ys)"

section \<open>The prompt templates\<close>

text \<open>
  \<open>sql_prompt.format(question=..., columns=...)\<close> and
  \<open>fix_prompt.format(sql=..., error=..., columns=...)\<close>: the template text with each
  placeholder replaced by the value given. The pieces of template text between the
  placeholders are named, so that the place of each value in the prompt can be stated.
\<close>

definition sql_prompt_head :: str where
  "sql_prompt_head = lit ''\<newline>You are a senior SQL expert.\<newline>\<newline>Table: data\<newline>Columns: ''"

definition sql_prompt_rules :: str where
  "sql_prompt_rules = lit (''\<newline>\<newline>Rules:\<newline>- Output ONLY SQL\<newline>- Use correct aggregate functions\<newline>'' @
     ''- Use GROUP BY properly\<newline>- DuckDB compatible SQL only\<newline>- No explanations\<newline>\<newline>Question:\<newline>'')"

definition sql_prompt_format :: "str \<Rightarrow> str \<Rightarrow> str" where
  "sql_prompt_format question columns =
     sql_prompt_head @ columns @ sql_prompt_rules @ question @ lit ''\<newline>''"

definition fix_prompt_head :: str where
  "fix_prompt_head = lit ''\<newline>The following SQL caused an error:\<newline>\<newline>SQL:\<newline>''"

definition fix_prompt_error :: str where
  "fix_prompt_error = lit ''\<newline>\<newline>Error:\<newline>''"

definition fix_prompt_columns :: str where
  "fix_prompt_columns = lit ''\<newline>\<newline>Table columns:\<newline>''"

definition fix_prompt_tail :: str where
  "fix_prompt_tail = lit (''\<newline>\<newline>Fix the SQL so that it executes correctly.\<newline>'' @
     ''Return ONLY corrected SQL.\<newline>'')"

definition fix_prompt_format :: "str \<Rightarrow> str \<Rightarrow> str \<Rightarrow> str" where
  "fix_prompt_format sql error columns =
     fix_prompt_head @ sql @ fix_prompt_error @ error @ fix_prompt_columns @ columns @
     fix_prompt_tail"

section \<open>Loading the uploaded file\<close>

record 'v dataframe =
  df_columns :: "str list"
  df_rows :: "'v list list"

text \<open>
  A DuckDB connection holds named relations: the data frames registered with it and the
  tables it has created. \<open>duckdb.connect()\<close> opens a new in-memory database, which has
  none. \<open>CREATE OR REPLACE TABLE t AS SELECT * FROM r\<close> makes \<open>t\<close> a table holding what
  \<open>SELECT * FROM r\<close> yields, dropping a table \<open>t\<close> that was there, and fails when there is
  no \<open>r\<close>.

  What the engine reads out of a registered data frame is the engine's own business: it
  names columns by its own rules (DuckDB compares names without regard to case and
  renames a column whose name it has already seen), and it words its own errors. Both
  are parameters of the model: \<open>select_all\<close> is the table that \<open>SELECT *\<close> yields for a
  registered data frame, \<open>catalog_error\<close> the text of the error for a relation that does
  not exist.
\<close>

datatype 'v relation = Registered "'v dataframe" | Table "'v dataframe"

type_synonym 'v connection = "str \<rightharpoonup> 'v relation"

record 'v engine =
  select_all :: "'v dataframe \<Rightarrow> 'v dataframe"
  catalog_error :: "str \<Rightarrow> str"

definition duckdb_connect :: "'v connection" where
  "duckdb_connect = Map.empty"

definition register :: "'v connection \<Rightarrow> str \<Rightarrow> 'v dataframe \<Rightarrow> 'v connection" where
  "register con name df = con(name \<mapsto> Registered df)"

definition create_or_replace_table_as_select_all ::
  "'v engine \<Rightarrow> 'v connection \<Rightarrow> str \<Rightarrow> str \<Rightarrow> str + 'v connection" where
  "create_or_replace_table_as_select_all engine con table source =
     (case con source of
        None \<Rightarrow> Inl (catalog_error engine source)
      | Some (Registered df) \<Rightarrow> Inr (con(table \<mapsto> Table (select_all engine df)))
      | Some (Table t) \<Rightarrow> Inr (con(table \<mapsto> Table t)))"

text \<open>
  The names the script binds once a file is uploaded and read. Streamlit runs the script
  from its first line on every interaction and the script keeps nothing in the session
  state, so what an earlier run bound (\<open>previous\<close>) is not read: \<open>con\<close> and \<open>columns\<close> are
  bound anew. \<open>columns\<close> is \<open>list(df.columns)\<close>, the column list of the data frame as pandas
  has it, not the column list of the table the engine has made of it.
\<close>

record 'v session =
  con_of :: "'v connection"
  columns_of :: "str list"

definition upload ::
  "'v session option \<Rightarrow> 'v engine \<Rightarrow> 'v dataframe \<Rightarrow> str + 'v session" where
  "upload previous engine df =
     (let con0 = duckdb_connect;
          con1 = register con0 (lit ''df'') df
      in case create_or_replace_table_as_select_all engine con1 (lit ''data'') (lit ''df'') of
           Inl e \<Rightarrow> Inl e
         | Inr con2 \<Rightarrow> Inr \<lparr>con_of = con2, columns_of = df_columns df\<rparr>)"

section \<open>The model and the query engine\<close>

text \<open>
  The language model and the query engine are outside the program. Every call to one of
  them is recorded, with what it returned (\<open>Inr\<close>) or the text of the exception it raised
  (\<open>Inl\<close>), in a log. What a call answers may depend on its argument and on everything
  that happened before it, so the two collaborators are functions of the log so far: any
  sequence of answers is the behaviour of some such pair of functions.
\<close>

datatype 'v event =
    is_invoke: Invoke str "str + str"
  | is_execute: Execute str "str + 'v dataframe"

record 'v env =
  llm_invoke :: "'v event list \<Rightarrow> str \<Rightarrow> str + str"
  con_execute :: "'v event list \<Rightarrow> str \<Rightarrow> str + 'v dataframe"

text \<open>
  The source defines no exception class. An exception is modelled by the call that raised
  it and by its text \<open>str(e)\<close>: \<open>GenerationError\<close> comes out of \<open>llm.invoke\<close>,
  \<open>ExecutionError\<close> out of \<open>con.execute(sql).df()\<close>, and \<open>TypeError\<close> is what Python raises
  when \<open>None\<close> is unpacked into two names.
\<close>

datatype exn = GenerationError str | ExecutionError str | TypeError str

fun exn_str :: "exn \<Rightarrow> str" where
  "exn_str (GenerationError m) = m"
| "exn_str (ExecutionError m) = m"
| "exn_str (TypeError m) = m"

section \<open>Generating SQL\<close>

definition generate_sql ::
  "'v env \<Rightarrow> str list \<Rightarrow> str \<Rightarrow> 'v event list \<Rightarrow> 'v event list \<times> (exn + str)" where
  "generate_sql env columns question log =
     (let prompt = sql_prompt_format question (str_join (lit '', '') columns);
          answer = llm_invoke env log prompt;
          log1 = log @ [Invoke prompt answer]
      in case answer of
           Inl m \<Rightarrow> (log1, Inl (GenerationError m))
         | Inr content \<Rightarrow> (log1, Inr (str_replace [] [] (str_strip content))))"

section \<open>Executing SQL with automatic fixes\<close>

text \<open>
  The body of \<open>for attempt in range(retries + 1)\<close>, run over the attempts that are left.
  A successful execution returns the pair of the data frame and the SQL; a failed one
  raises again when \<open>attempt == retries\<close>, and otherwise asks the model for a fix, whose
  answer is the SQL of the next attempt. An exception of that call to the model is raised
  in the handler, outside the \<open>try\<close>, so it leaves the function. When the attempts run
  out the function falls off its end and returns \<open>None\<close>.
\<close>

fun for_attempt ::
  "'v env \<Rightarrow> str list \<Rightarrow> int \<Rightarrow> int list \<Rightarrow> str \<Rightarrow> 'v event list \<Rightarrow>
     'v event list \<times> (exn + ('v dataframe \<times> str) option)" where
  "for_attempt env columns retries [] sql log = (log, Inr None)"
| "for_attempt env columns retries (attempt # rest) sql log =
     (let result = con_execute env log sql;
          log1 = log @ [Execute sql result]
      in case result of
           Inr df \<Rightarrow> (log1, Inr (Some (df, sql)))
         | Inl e \<Rightarrow>
             if attempt = retries then (log1, Inl (ExecutionError e))
             else
               (let prompt = fix_prompt_format sql e (str_join (lit '', '') columns);
                    answer = llm_invoke env log1 prompt;
                    log2 = log1 @ [Invoke prompt answer]
                in case answer of
                     Inl m \<Rightarrow> (log2, Inl (GenerationError m))
                   | Inr content \<Rightarrow>
                       for_attempt env columns retries rest
                         (str_replace [] [] (str_strip content)) log2))"

definition execute_with_retry ::
  "'v env \<Rightarrow> str list \<Rightarrow> str \<Rightarrow> int \<Rightarrow> 'v event list \<Rightarrow>
     'v event list \<times> (exn + ('v dataframe \<times> str) option)" where
  "execute_with_retry env columns sql retries log =
     for_attempt env columns retries [0..retries] sql log"

section \<open>The Run Query handler\<close>

text \<open>
  What the handler shows: the final SQL and the result, or \<open>st.error\<close> with the text of
  the exception. \<open>execute_with_retry(sql)\<close> is called with the default \<open>retries=2\<close>.
\<close>

datatype 'v shown = Answer str "'v dataframe" | Error str

definition failed_prefix :: str where
  "failed_prefix = 10060 # lit '' Failed to execute query: ''"

definition unpack_none :: str where
  "unpack_none = lit ''cannot unpack non-iterable NoneType object''"

definition run_query ::
  "'v env \<Rightarrow> str list \<Rightarrow> str \<Rightarrow> 'v event list \<Rightarrow> 'v event list \<times> 'v shown" where
  "run_query env columns user_question log =
     (case generate_sql env columns user_question log of
        (log1, Inl e) \<Rightarrow> (log1, Error (failed_prefix @ exn_str e))
      | (log1, Inr sql) \<Rightarrow>
          (case execute_with_retry env columns sql 2 log1 of
             (log2, Inl e) \<Rightarrow> (log2, Error (failed_prefix @ exn_str e))
           | (log2, Inr None) \<Rightarrow>
               (log2, Error (failed_prefix @ exn_str (TypeError unpack_none)))
           | (log2, Inr (Some (result, final_sql))) \<Rightarrow> (log2, Answer final_sql result)))"

section \<open>The script\<close>

text \<open>
  One run of the script. The widgets give the uploaded file (if any), whether the button
  was pressed, and the text of the question. The uploaded file is given by what
  \<open>pd.read_csv\<close> makes of it: a data frame (\<open>Inr\<close>), or the text of the exception it raises
  (\<open>Inl\<close>), which nothing catches and which ends the run. Without a file the script only
  shows a hint. The query engine answers \<open>con.execute\<close> through \<open>env\<close>; the widgets that
  only display (title, preview, captions) are left out.
\<close>

record 'v widgets =
  uploaded_file :: "(str + 'v dataframe) option"
  button :: bool
  text_input :: str

datatype 'v page =
    Info
  | Crashed str
  | Ready "'v session"
  | Queried "'v session" "'v shown"

definition script ::
  "'v session option \<Rightarrow> 'v engine \<Rightarrow> 'v env \<Rightarrow> 'v widgets \<Rightarrow> 'v event list \<Rightarrow>
     'v event list \<times> 'v page" where
  "script previous engine env w log =
     (case uploaded_file w of
        None \<Rightarrow> (log, Info)
      | Some (Inl e) \<Rightarrow> (log, Crashed e)
      | Some (Inr df) \<Rightarrow>
          (case upload previous engine df of
             Inl e \<Rightarrow> (log, Crashed e)
           | Inr s \<Rightarrow>
               if button w \<and> text_input w \<noteq> []
               then (case run_query env (columns_of s) (text_input w) log of
                       (log1, out) \<Rightarrow> (log1, Queried s out))
               else (log, Ready s)))"

section \<open>Notions used to state the properties\<close>

text \<open>The events a run has added to the log it started from.\<close>

definition added :: "'v event list \<Rightarrow> 'v event list \<Rightarrow> 'v event list" where
  "added log log1 = drop (length log) log1"

text \<open>
  \<open>corrects cj a b\<close>: event \<open>b\<close> may directly follow event \<open>a\<close> in the retry loop, for the
  comma-joined column list \<open>cj\<close>. A failed execution is followed by a call to the model
  with the fix prompt made of the SQL that failed, the text of the error and \<open>cj\<close>; an
  answer of the model is followed by the execution of the stripped answer; nothing
  follows a successful execution or a failed call to the model.
\<close>

fun corrects :: "str \<Rightarrow> 'v event \<Rightarrow> 'v event \<Rightarrow> bool" where
  "corrects cj (Execute sql (Inl e)) (Invoke prompt answer) =
     (prompt = fix_prompt_format sql e cj)"
| "corrects cj (Invoke prompt (Inr content)) (Execute sql result) =
     (sql = str_replace [] [] (str_strip content))"
| "corrects cj a b = False"

text \<open>
  What the retry loop returns or raises, read off the last event it has logged: the
  data frame and the SQL of a successful execution, the error of a failed one, the
  error of a failed call to the model; after an answer of the model with no attempt left
  the loop ends and the function returns \<open>None\<close>.
\<close>

fun result_of_event :: "'v event \<Rightarrow> exn + ('v dataframe \<times> str) option" where
  "result_of_event (Execute sql (Inr df)) = Inr (Some (df, sql))"
| "result_of_event (Execute sql (Inl e)) = Inl (ExecutionError e)"
| "result_of_event (Invoke prompt (Inl m)) = Inl (GenerationError m)"
| "result_of_event (Invoke prompt (Inr content)) = Inr None"

text \<open>
  Collaborators that follow a script: the k-th call to the model gets the k-th of
  \<open>answers\<close>, the k-th execution the k-th of \<open>results\<close>, whatever the arguments; a call
  beyond the script raises an exception with an empty text.
\<close>

definition nth_or :: "'a \<Rightarrow> 'a list \<Rightarrow> nat \<Rightarrow> 'a" where
  "nth_or d xs n = (case drop n xs of [] \<Rightarrow> d | x # ys \<Rightarrow> x)"

definition scripted :: "(str + str) list \<Rightarrow> (str + 'v dataframe) list \<Rightarrow> 'v env" where
  "scripted answers results =
     \<lparr>llm_invoke = (\<lambda>log prompt. nth_or (Inl []) answers (length (filter is_invoke log))),
      con_execute = (\<lambda>log sql. nth_or (Inl []) results (length (filter is_execute log)))\<rparr>"

section \<open>Facts about the string functions\<close>

lemma replace_empty_id: "replace_empty [] s = s"
  by (induction s) auto

lemma str_replace_id: "str_replace [] [] s = s"
  by (simp add: str_replace_def replace_empty_id)

section \<open>Facts about the retry loop\<close>

text \<open>The loop only appends to the log.\<close>

lemma for_attempt_prefix:
  "\<exists>evs. fst (for_attempt env cols retries as sql log) = log @ evs"
proof (induction as arbitrary: sql log)
  case Nil
  show ?case by simp
next
  case (Cons a as)
  show ?case
  proof (cases "con_execute env log sql")
    case (Inr df)
    then show ?thesis by (simp add: Let_def)
  next
    case (Inl e)
    let ?p = "fix_prompt_format sql e (str_join (lit '', '') cols)"
    let ?log1 = "log @ [Execute sql (Inl e)]"
    show ?thesis
    proof (cases "llm_invoke env ?log1 ?p")
      case m: (Inl m)
      with Inl show ?thesis by (simp add: Let_def)
    next
      case c: (Inr c)
      obtain evs where
        "fst (for_attempt env cols retries as (str_replace [] [] (str_strip c))
           (?log1 @ [Invoke ?p (Inr c)])) = (?log1 @ [Invoke ?p (Inr c)]) @ evs"
        using Cons.IH by blast
      with Inl c show ?thesis by (simp add: Let_def)
    qed
  qed
qed

lemma added_append [simp]: "added log (log @ evs) = evs"
  by (simp add: added_def)

lemma added_self [simp]: "added log log = []"
  by (simp add: added_def)

lemma for_attempt_log:
  "fst (for_attempt env cols retries as sql log) =
     log @ added log (fst (for_attempt env cols retries as sql log))"
  using for_attempt_prefix [of env cols retries as sql log] by auto

lemma added_for_attempt_Nil [simp]:
  "added log (fst (for_attempt env cols retries [] sql log)) = []"
  by simp

lemma added_for_attempt_Cons:
  "added log (fst (for_attempt env cols retries (a # as) sql log)) =
     (let result = con_execute env log sql; ev1 = Execute sql result
      in case result of
           Inr df \<Rightarrow> [ev1]
         | Inl e \<Rightarrow>
             if a = retries then [ev1]
             else
               (let prompt = fix_prompt_format sql e (str_join (lit '', '') cols);
                    answer = llm_invoke env (log @ [ev1]) prompt;
                    ev2 = Invoke prompt answer
                in case answer of
                     Inl m \<Rightarrow> [ev1, ev2]
                   | Inr content \<Rightarrow>
                       ev1 # ev2 # added (log @ [ev1, ev2])
                         (fst (for_attempt env cols retries as
                            (str_replace [] [] (str_strip content)) (log @ [ev1, ev2])))))"
proof -
  have *: "added log (fst (for_attempt env cols retries as s (log @ [x, y]))) =
      x # y # added (log @ [x, y]) (fst (for_attempt env cols retries as s (log @ [x, y])))"
    for s x y
  proof -
    obtain evs where e: "fst (for_attempt env cols retries as s (log @ [x, y])) = (log @ [x, y]) @ evs"
      using for_attempt_prefix by blast
    show ?thesis unfolding e by (simp add: added_def)
  qed
  show ?thesis
    by (simp add: Let_def * split: sum.splits)
qed


lemma executes_le_attempts:
  "length (filter is_execute (added log (fst (for_attempt env cols retries as sql log)))) \<le> length as"
proof (induction as arbitrary: sql log)
  case Nil
  show ?case by simp
next
  case (Cons a as)
  show ?case
    unfolding added_for_attempt_Cons
    using Cons.IH by (auto simp: Let_def le_SucI split: sum.splits)
qed

lemma invokes_le_attempts:
  "as \<noteq> [] \<Longrightarrow> last as = retries \<Longrightarrow>
   Suc (length (filter is_invoke (added log (fst (for_attempt env cols retries as sql log))))) \<le> length as"
proof (induction as arbitrary: sql log)
  case Nil
  then show ?case by simp
next
  case (Cons a as)
  show ?case
  proof (cases "as = []")
    case True
    with Cons.prems show ?thesis
      by (simp add: Let_def split: sum.splits)
  next
    case False
    with Cons.prems have l: "last as = retries" by simp
    from False have n: "Suc 0 \<le> length as"
      by (simp add: Suc_le_eq)
    show ?thesis
      unfolding added_for_attempt_Cons
      using Cons.IH [OF False l] n
      by (auto simp: Let_def le_SucI split: sum.splits)
  qed
qed

lemma hd_added_for_attempt:
  "hd (added log (fst (for_attempt env cols retries (a # as) sql log))) =
     Execute sql (con_execute env log sql)"
  unfolding added_for_attempt_Cons by (simp add: Let_def split: sum.splits)

lemma added_for_attempt_eq_Nil:
  "added log (fst (for_attempt env cols retries as sql log)) = [] \<longleftrightarrow> as = []"
proof (cases as)
  case Nil
  then show ?thesis by simp
next
  case (Cons a list)
  show ?thesis
    unfolding Cons added_for_attempt_Cons by (simp add: Let_def split: sum.splits)
qed

lemma hd_added_for_attempt_if:
  "added log (fst (for_attempt env cols retries as sql log)) \<noteq> [] \<Longrightarrow>
   hd (added log (fst (for_attempt env cols retries as sql log))) =
     Execute sql (con_execute env log sql)"
  by (cases as) (simp_all only: hd_added_for_attempt added_for_attempt_Nil, simp)

lemma corrects_for_attempt:
  "successively (corrects (str_join (lit '', '') cols))
     (added log (fst (for_attempt env cols retries as sql log)))"
proof (induction as arbitrary: sql log)
  case Nil
  show ?case by simp
next
  case (Cons a as)
  have step: "successively (corrects (str_join (lit '', '') cols))
      (Invoke (fix_prompt_format sql e (str_join (lit '', '') cols)) (Inr c) #
       added l (fst (for_attempt env cols retries as (str_replace [] [] (str_strip c)) l)))"
    for e c l
    using Cons.IH [of l "str_replace [] [] (str_strip c)"]
      hd_added_for_attempt_if [of l env cols retries as "str_replace [] [] (str_strip c)"]
    by (cases "added l (fst (for_attempt env cols retries as (str_replace [] [] (str_strip c)) l))")
      auto
  show ?case
    unfolding added_for_attempt_Cons
    by (simp add: Let_def step split: sum.splits)
qed


lemma result_for_attempt:
  "as \<noteq> [] \<Longrightarrow>
   snd (for_attempt env cols retries as sql log) =
     result_of_event (last (added log (fst (for_attempt env cols retries as sql log))))"
proof (induction as arbitrary: sql log)
  case Nil
  then show ?case by simp
next
  case (Cons a as)
  show ?case
  proof (cases "as = []")
    case True
    show ?thesis
      unfolding True by (simp add: Let_def split: sum.splits)
  next
    case False
    have ne: "added l (fst (for_attempt env cols retries as s l)) \<noteq> []" for s l
      using False by (simp add: added_for_attempt_eq_Nil)
    have snd: "snd (for_attempt env cols retries (a # as) sql log) =
      (case con_execute env log sql of
         Inr df \<Rightarrow> Inr (Some (df, sql))
       | Inl e \<Rightarrow>
           if a = retries then Inl (ExecutionError e)
           else (case llm_invoke env (log @ [Execute sql (Inl e)])
                        (fix_prompt_format sql e (str_join (lit '', '') cols)) of
                   Inl m \<Rightarrow> Inl (GenerationError m)
                 | Inr content \<Rightarrow>
                     snd (for_attempt env cols retries as (str_replace [] [] (str_strip content))
                       (log @ [Execute sql (Inl e),
                          Invoke (fix_prompt_format sql e (str_join (lit '', '') cols)) (Inr content)]))))"
      by (simp add: Let_def split: sum.splits)
    show ?thesis
      unfolding snd added_for_attempt_Cons
      using Cons.IH [OF False] ne
      by (simp add: Let_def split: sum.splits)
  qed
qed

lemma last_execute_for_attempt:
  "as \<noteq> [] \<Longrightarrow>
   last (fst (for_attempt env cols retries as sql log)) = Execute s x \<Longrightarrow>
   con_execute env (butlast (fst (for_attempt env cols retries as sql log))) s = x"
proof (induction as arbitrary: sql log)
  case Nil
  then show ?case by simp
next
  case (Cons a as)
  show ?case
  proof (cases "as = []")
    case True
    with Cons.prems show ?thesis
      by (auto simp: Let_def split: sum.splits if_splits)
  next
    case False
    from Cons.IH [OF False] Cons.prems show ?thesis
      by (auto simp: Let_def split: sum.splits if_splits)
  qed
qed

lemma bound_reached_for_attempt:
  "as \<noteq> [] \<Longrightarrow> distinct as \<Longrightarrow> last as = retries \<Longrightarrow>
   last (added log (fst (for_attempt env cols retries as sql log))) = Execute s (Inl e) \<Longrightarrow>
   length (filter is_execute (added log (fst (for_attempt env cols retries as sql log)))) = length as"
proof (induction as arbitrary: sql log)
  case Nil
  then show ?case by simp
next
  case (Cons a as)
  show ?case
  proof (cases "as = []")
    case True
    show ?thesis
      unfolding True by (simp add: Let_def split: sum.splits)
  next
    case False
    with Cons.prems have l: "last as = retries" and d: "distinct as" and a: "a \<noteq> retries"
      by auto
    have ne: "added l (fst (for_attempt env cols retries as s l)) \<noteq> []" for s l
      using False by (simp add: added_for_attempt_eq_Nil)
    from Cons.prems(4) show ?thesis
      unfolding added_for_attempt_Cons
      using Cons.IH [OF False d l] a ne
      by (auto simp: Let_def split: sum.splits)
  qed
qed

lemma prompts_for_attempt:
  "Invoke p x \<in> set (added log (fst (for_attempt env cols retries as sql log))) \<Longrightarrow>
   \<exists>s e. p = fix_prompt_format s e (str_join (lit '', '') cols)"
proof (induction as arbitrary: sql log)
  case Nil
  then show ?case by simp
next
  case (Cons a as)
  from Cons.prems show ?case
    unfolding added_for_attempt_Cons
    using Cons.IH
    by (auto simp: Let_def split: sum.splits if_splits)
qed

lemma last_upto_retries: "0 \<le> retries \<Longrightarrow> last [0..retries] = retries"
  by (simp add: upto_rec2)

lemma execute_with_retry_first_success:
  "0 \<le> retries \<Longrightarrow> con_execute env log sql = Inr df \<Longrightarrow>
   execute_with_retry env cols sql retries log = (log @ [Execute sql (Inr df)], Inr (Some (df, sql)))"
  by (simp add: execute_with_retry_def upto_rec1 Let_def)

section \<open>The properties\<close>

text \<open>
  C9. The SQL candidate made from a response \<open>r\<close> of the model is \<open>r\<close> with leading and
  trailing whitespace stripped, in \<open>generate_sql\<close> and in the fix step of the loop alike:
  \<open>.replace("", "")\<close> changes nothing, so code fences and every other character of the
  stripped response stay in the candidate.
\<close>

theorem sql_candidate_is_stripped_response:
  "str_replace [] [] (str_strip r) = str_strip r \<and>
   (llm_invoke env log (sql_prompt_format question (str_join (lit '', '') cols)) = Inr r \<longrightarrow>
      snd (generate_sql env cols question log) = Inr (str_strip r)) \<and>
   (con_execute env log sql = Inl e \<and> attempt \<noteq> retries \<and>
    llm_invoke env (log @ [Execute sql (Inl e)])
      (fix_prompt_format sql e (str_join (lit '', '') cols)) = Inr r \<longrightarrow>
      for_attempt env cols retries (attempt # rest) sql log =
      for_attempt env cols retries rest (str_strip r)
        (log @ [Execute sql (Inl e),
                Invoke (fix_prompt_format sql e (str_join (lit '', '') cols)) (Inr r)]))"
  by (simp add: str_replace_id generate_sql_def Let_def)

theorem sql_candidate_is_stripped_response_witness:
  "snd (generate_sql (scripted [Inr (lit '' ```sql SELECT 1``` '')] ([] :: (str + nat dataframe) list))
     [lit ''a''] (lit ''q'') []) = Inr (lit ''```sql SELECT 1```'') \<and>
   for_attempt (scripted [Inr (lit '' ```sql SELECT 1``` '')] ([] :: (str + nat dataframe) list))
     [lit ''a''] 2 [0, 1, 2] (lit ''x'') [] =
   for_attempt (scripted [Inr (lit '' ```sql SELECT 1``` '')] [])
     [lit ''a''] 2 [1, 2] (lit ''```sql SELECT 1```'')
     [Execute (lit ''x'') (Inl []),
      Invoke (fix_prompt_format (lit ''x'') [] (str_join (lit '', '') [lit ''a'']))
        (Inr (lit '' ```sql SELECT 1``` ''))]"
proof -
  let ?env = "scripted [Inr (lit '' ```sql SELECT 1``` '')] ([] :: (str + nat dataframe) list)"
  have s: "str_strip (lit '' ```sql SELECT 1``` '') = lit ''```sql SELECT 1```''"
    by (simp add: str_strip_def lit_def isspace_def)
  have g: "llm_invoke ?env log p = Inr (lit '' ```sql SELECT 1``` '')"
    if "filter is_invoke log = []" for log p
    using that by (simp add: scripted_def nth_or_def)
  have x: "con_execute ?env [] (lit ''x'') = Inl []"
    by (simp add: scripted_def nth_or_def)
  show ?thesis
    using sql_candidate_is_stripped_response
      [of "lit '' ```sql SELECT 1``` ''" ?env "[]"
        "lit ''q''" "[lit ''a'']" "lit ''x''" "[]" 0 2 "[1, 2]"]
    by (simp add: s g x del: for_attempt.simps)
qed

lemma default_attempts: "[0..2] = [0, 1, 2]"
  by (simp add: upto_rec1)

text \<open>
  C3. When the first SQL candidate executes successfully, the model is never asked for a
  fix. \<open>execute_with_retry\<close>, for any number of retries that is not negative, logs the
  one execution and returns its data frame with the SQL; the whole cycle of
  \<open>run_query\<close> logs the generation call and that execution, nothing else, and shows
  the answer.
\<close>

theorem first_success_needs_no_fix:
  "(0 \<le> retries \<and> con_execute env log sql = Inr df \<longrightarrow>
      execute_with_retry env cols sql retries log =
        (log @ [Execute sql (Inr df)], Inr (Some (df, sql)))) \<and>
   (llm_invoke env log (sql_prompt_format question (str_join (lit '', '') cols)) = Inr r \<and>
    con_execute env
      (log @ [Invoke (sql_prompt_format question (str_join (lit '', '') cols)) (Inr r)])
      (str_strip r) = Inr df \<longrightarrow>
      run_query env cols question log =
        (log @ [Invoke (sql_prompt_format question (str_join (lit '', '') cols)) (Inr r),
                Execute (str_strip r) (Inr df)],
         Answer (str_strip r) df))"
  by (simp add: execute_with_retry_first_success run_query_def generate_sql_def Let_def
      str_replace_id)

theorem first_success_needs_no_fix_witness:
  "execute_with_retry
     (scripted [Inr (lit ''SELECT 1'')] [Inr \<lparr>df_columns = [lit ''a''], df_rows = [[5::nat]]\<rparr>])
     [lit ''a''] (lit ''SELECT 1'') 2 [] =
     ([Execute (lit ''SELECT 1'') (Inr \<lparr>df_columns = [lit ''a''], df_rows = [[5]]\<rparr>)],
      Inr (Some (\<lparr>df_columns = [lit ''a''], df_rows = [[5]]\<rparr>, lit ''SELECT 1''))) \<and>
   run_query
     (scripted [Inr (lit ''SELECT 1'')] [Inr \<lparr>df_columns = [lit ''a''], df_rows = [[5::nat]]\<rparr>])
     [lit ''a''] (lit ''q'') [] =
     ([Invoke (sql_prompt_format (lit ''q'') (str_join (lit '', '') [lit ''a''])) (Inr (lit ''SELECT 1'')),
       Execute (lit ''SELECT 1'') (Inr \<lparr>df_columns = [lit ''a''], df_rows = [[5]]\<rparr>)],
      Answer (lit ''SELECT 1'') \<lparr>df_columns = [lit ''a''], df_rows = [[5]]\<rparr>)"
proof -
  let ?df = "\<lparr>df_columns = [lit ''a''], df_rows = [[5::nat]]\<rparr>"
  let ?env = "scripted [Inr (lit ''SELECT 1'')] [Inr ?df]"
  have s: "str_strip (lit ''SELECT 1'') = lit ''SELECT 1''"
    by (simp add: str_strip_def lit_def isspace_def)
  have g: "llm_invoke ?env log p = Inr (lit ''SELECT 1'')" if "filter is_invoke log = []" for log p
    using that by (simp add: scripted_def nth_or_def)
  have x: "con_execute ?env log q = Inr ?df" if "filter is_execute log = []" for log q
    using that by (simp add: scripted_def nth_or_def)
  show ?thesis
    using first_success_needs_no_fix
      [of 2 ?env "[]" "lit ''SELECT 1''" ?df "[lit ''a'']" "lit ''q''" "lit ''SELECT 1''"]
    by (simp add: s g x)
qed

text \<open>
  C10. For every \<open>retries\<close> that is not negative, \<open>execute_with_retry\<close> (a total function:
  the loop runs over the finite list of attempts) executes SQL at most \<open>retries + 1\<close>
  times and calls the model at most \<open>retries\<close> times. With \<open>retries = 0\<close> a first
  execution that fails is raised at once and the model is not called.
\<close>

theorem execute_with_retry_is_bounded:
  "0 \<le> retries \<longrightarrow>
     length (filter is_execute (added log (fst (execute_with_retry env cols sql retries log))))
       \<le> nat retries + 1 \<and>
     length (filter is_invoke (added log (fst (execute_with_retry env cols sql retries log))))
       \<le> nat retries \<and>
     fst (execute_with_retry env cols sql retries log) =
       log @ added log (fst (execute_with_retry env cols sql retries log)) \<and>
     (retries = 0 \<and> con_execute env log sql = Inl e \<longrightarrow>
        execute_with_retry env cols sql retries log =
          (log @ [Execute sql (Inl e)], Inl (ExecutionError e)))"
proof
  assume r: "0 \<le> retries"
  then have ne: "[0..retries] \<noteq> []" and len: "length [0..retries] = nat retries + 1"
    by simp_all
  have "length (filter is_execute (added log (fst (execute_with_retry env cols sql retries log))))
       \<le> nat retries + 1"
    using executes_le_attempts [of log env cols retries "[0..retries]" sql] len
    by (simp add: execute_with_retry_def)
  moreover have "length (filter is_invoke (added log (fst (execute_with_retry env cols sql retries log))))
       \<le> nat retries"
    using invokes_le_attempts [OF ne last_upto_retries [OF r], of log env cols sql] len
    by (simp add: execute_with_retry_def)
  moreover have "fst (execute_with_retry env cols sql retries log) =
       log @ added log (fst (execute_with_retry env cols sql retries log))"
    unfolding execute_with_retry_def by (rule for_attempt_log)
  moreover have "retries = 0 \<and> con_execute env log sql = Inl e \<longrightarrow>
        execute_with_retry env cols sql retries log =
          (log @ [Execute sql (Inl e)], Inl (ExecutionError e))"
    by (simp add: execute_with_retry_def Let_def)
  ultimately show "length (filter is_execute (added log (fst (execute_with_retry env cols sql retries log))))
       \<le> nat retries + 1 \<and>
     length (filter is_invoke (added log (fst (execute_with_retry env cols sql retries log))))
       \<le> nat retries \<and>
     fst (execute_with_retry env cols sql retries log) =
       log @ added log (fst (execute_with_retry env cols sql retries log)) \<and>
     (retries = 0 \<and> con_execute env log sql = Inl e \<longrightarrow>
        execute_with_retry env cols sql retries log =
          (log @ [Execute sql (Inl e)], Inl (ExecutionError e)))"
    by blast
qed

theorem execute_with_retry_is_bounded_witness:
  "(0::int) \<le> 0 \<and>
   con_execute (scripted [] [Inl (lit ''boom'') :: str + nat dataframe]) [] (lit ''x'') = Inl (lit ''boom'') \<and>
   length (filter is_invoke (added []
     (fst (execute_with_retry (scripted [] [Inl (lit ''boom'') :: str + nat dataframe]) [lit ''a'']
        (lit ''x'') 0 [])))) \<le> 0 \<and>
   execute_with_retry (scripted [] [Inl (lit ''boom'') :: str + nat dataframe]) [lit ''a''] (lit ''x'') 0 [] =
     ([Execute (lit ''x'') (Inl (lit ''boom''))], Inl (ExecutionError (lit ''boom'')))"
proof -
  let ?env = "scripted [] [Inl (lit ''boom'') :: str + nat dataframe]"
  have x: "con_execute ?env [] (lit ''x'') = Inl (lit ''boom'')"
    by (simp add: scripted_def nth_or_def)
  show ?thesis
    using execute_with_retry_is_bounded [of 0 "[]" ?env "[lit ''a'']" "lit ''x''" "lit ''boom''"]
    by (simp add: x added_def)
qed


lemma successively_after:
  "successively P (pre @ x # post) \<Longrightarrow> post = [] \<or> P x (hd post)"
  by (cases post) (auto simp: successively_append_iff)

text \<open>
  C2. In \<open>execute_with_retry\<close> with \<open>retries\<close> not negative, take a failed execution of
  \<open>s\<close> with error text \<open>e\<close> that is attempt k with k at most \<open>retries\<close> (fewer than
  \<open>retries\<close> executions come before it in the log of the run). The event right after it
  is one call to the model, with the fix prompt made of exactly \<open>s\<close>, exactly \<open>e\<close> and the
  comma-joined column list, each whole and unchanged between the fixed parts of the
  template; and what follows that call, if anything, is the next execution.
\<close>

theorem failed_attempt_gets_one_fix_call:
  "0 \<le> retries \<and>
   added log (fst (execute_with_retry env cols sql retries log)) = pre @ Execute s (Inl e) # post \<and>
   length (filter is_execute pre) < nat retries \<longrightarrow>
     (\<exists>answer rest.
        post = Invoke (fix_prompt_format s e (str_join (lit '', '') cols)) answer # rest \<and>
        (rest = [] \<or> is_execute (hd rest))) \<and>
     fix_prompt_format s e (str_join (lit '', '') cols) =
       fix_prompt_head @ s @ fix_prompt_error @ e @ fix_prompt_columns @
       str_join (lit '', '') cols @ fix_prompt_tail"
proof
  let ?cj = "str_join (lit '', '') cols"
  let ?evs = "added log (fst (for_attempt env cols retries [0..retries] sql log))"
  assume a: "0 \<le> retries \<and>
   added log (fst (execute_with_retry env cols sql retries log)) = pre @ Execute s (Inl e) # post \<and>
   length (filter is_execute pre) < nat retries"
  then have r: "0 \<le> retries" and evs: "?evs = pre @ Execute s (Inl e) # post"
    and k: "length (filter is_execute pre) < nat retries"
    by (simp_all add: execute_with_retry_def)
  have succ: "successively (corrects ?cj) (pre @ Execute s (Inl e) # post)"
    using corrects_for_attempt [of cols log env retries "[0..retries]" sql] evs by simp
  have post: "post \<noteq> []"
  proof
    assume "post = []"
    with evs have "last ?evs = Execute s (Inl e)" by simp
    from bound_reached_for_attempt [OF _ _ last_upto_retries [OF r] this] r
    have "length (filter is_execute ?evs) = nat retries + 1" by simp
    with evs \<open>post = []\<close> k show False by simp
  qed
  with successively_after [OF succ] have c: "corrects ?cj (Execute s (Inl e)) (hd post)"
    by simp
  from post obtain ev rest where p: "post = ev # rest"
    by (cases post) auto
  with c obtain answer where ev: "ev = Invoke (fix_prompt_format s e ?cj) answer"
    by (cases ev) auto
  have "successively (corrects ?cj) ((pre @ [Execute s (Inl e)]) @ ev # rest)"
    using succ p by simp
  from successively_after [OF this] ev have "rest = [] \<or> is_execute (hd rest)"
    by (cases "hd rest"; cases answer) auto
  with p ev show "(\<exists>answer rest.
        post = Invoke (fix_prompt_format s e ?cj) answer # rest \<and>
        (rest = [] \<or> is_execute (hd rest))) \<and>
     fix_prompt_format s e ?cj =
       fix_prompt_head @ s @ fix_prompt_error @ e @ fix_prompt_columns @ ?cj @ fix_prompt_tail"
    by (simp add: fix_prompt_format_def)
qed


theorem failed_attempt_gets_one_fix_call_witness:
  "(0::int) \<le> 2 \<and>
   added [] (fst (execute_with_retry
     (scripted [Inr (lit ''SELECT region'')]
        [Inl (lit ''no column regoin''), Inr \<lparr>df_columns = [lit ''region''], df_rows = [[5::nat]]\<rparr>])
     [lit ''region'', lit ''sales''] (lit ''SELECT regoin'') 2 [])) =
     [] @ Execute (lit ''SELECT regoin'') (Inl (lit ''no column regoin'')) #
     [Invoke (fix_prompt_format (lit ''SELECT regoin'') (lit ''no column regoin'')
        (str_join (lit '', '') [lit ''region'', lit ''sales''])) (Inr (lit ''SELECT region'')),
      Execute (lit ''SELECT region'') (Inr \<lparr>df_columns = [lit ''region''], df_rows = [[5]]\<rparr>)] \<and>
   length (filter is_execute ([] :: nat event list)) < nat 2 \<and>
   fix_prompt_format (lit ''SELECT regoin'') (lit ''no column regoin'')
       (str_join (lit '', '') [lit ''region'', lit ''sales'']) =
     fix_prompt_head @ lit ''SELECT regoin'' @ fix_prompt_error @ lit ''no column regoin'' @
     fix_prompt_columns @ lit ''region, sales'' @ fix_prompt_tail"
proof -
  let ?df = "\<lparr>df_columns = [lit ''region''], df_rows = [[5::nat]]\<rparr>"
  let ?env = "scripted [Inr (lit ''SELECT region'')] [Inl (lit ''no column regoin''), Inr ?df]"
  have s: "str_strip (lit ''SELECT region'') = lit ''SELECT region''"
    by (simp add: str_strip_def lit_def isspace_def)
  have j: "lit ''region'' @ lit '', '' @ lit ''sales'' = lit ''region, sales''"
    by (simp add: lit_def)
  have run: "added [] (fst (execute_with_retry ?env [lit ''region'', lit ''sales'']
      (lit ''SELECT regoin'') 2 [])) =
     [] @ Execute (lit ''SELECT regoin'') (Inl (lit ''no column regoin'')) #
     [Invoke (fix_prompt_format (lit ''SELECT regoin'') (lit ''no column regoin'')
        (str_join (lit '', '') [lit ''region'', lit ''sales''])) (Inr (lit ''SELECT region'')),
      Execute (lit ''SELECT region'') (Inr ?df)]"
    by (simp add: execute_with_retry_def default_attempts scripted_def nth_or_def Let_def
        str_replace_id s added_def)
  show ?thesis
    using failed_attempt_gets_one_fix_call
      [of 2 "[]" ?env "[lit ''region'', lit ''sales'']" "lit ''SELECT regoin''" "[]"
        "lit ''SELECT regoin''" "lit ''no column regoin''"
        "[Invoke (fix_prompt_format (lit ''SELECT regoin'') (lit ''no column regoin'')
            (str_join (lit '', '') [lit ''region'', lit ''sales''])) (Inr (lit ''SELECT region'')),
          Execute (lit ''SELECT region'') (Inr ?df)]"]
      run
    by (simp add: j)
qed

lemma last_filter_if: "xs \<noteq> [] \<Longrightarrow> P (last xs) \<Longrightarrow> last (filter P xs) = last xs"
  by (induction xs rule: rev_induct) auto

lemma all_attempts_end_with_execute:
  "as \<noteq> [] \<Longrightarrow> last as = retries \<Longrightarrow>
   length (filter is_execute (added log (fst (for_attempt env cols retries as sql log)))) = length as \<Longrightarrow>
   is_execute (last (added log (fst (for_attempt env cols retries as sql log))))"
proof (induction as arbitrary: sql log)
  case Nil
  then show ?case by simp
next
  case (Cons a as)
  show ?case
  proof (cases "as = []")
    case True
    with Cons.prems(2) show ?thesis
      unfolding True by (simp add: Let_def split: sum.splits)
  next
    case False
    with Cons.prems have l: "last as = retries" by simp
    from False have n: "Suc 0 < Suc (length as)" by simp
    have ne: "added l (fst (for_attempt env cols retries as s l)) \<noteq> []" for s l
      using False by (simp add: added_for_attempt_eq_Nil)
    from Cons.prems(3) show ?thesis
      unfolding added_for_attempt_Cons
      using Cons.IH [OF False l] n ne
      by (auto simp: Let_def split: sum.splits if_splits)
  qed
qed

lemma fst_run_query:
  "fst (run_query env cols question log) =
     (case llm_invoke env log (sql_prompt_format question (str_join (lit '', '') cols)) of
        Inl m \<Rightarrow> log @ [Invoke (sql_prompt_format question (str_join (lit '', '') cols)) (Inl m)]
      | Inr r \<Rightarrow>
          fst (execute_with_retry env cols (str_strip r) 2
            (log @ [Invoke (sql_prompt_format question (str_join (lit '', '') cols)) (Inr r)])))"
  by (auto simp: run_query_def generate_sql_def Let_def str_replace_id
      split: sum.splits prod.splits option.splits)

lemma added_run_query:
  "added log (fst (run_query env cols question log)) =
     (let prompt = sql_prompt_format question (str_join (lit '', '') cols);
          answer = llm_invoke env log prompt
      in Invoke prompt answer #
         (case answer of
            Inl m \<Rightarrow> []
          | Inr r \<Rightarrow>
              added (log @ [Invoke prompt answer])
                (fst (execute_with_retry env cols (str_strip r) 2 (log @ [Invoke prompt answer])))))"
proof -
  have *: "added log (fst (execute_with_retry env cols s 2 (log @ [x]))) =
      x # added (log @ [x]) (fst (execute_with_retry env cols s 2 (log @ [x])))" for s x
  proof -
    obtain evs where e: "fst (execute_with_retry env cols s 2 (log @ [x])) = (log @ [x]) @ evs"
      unfolding execute_with_retry_def using for_attempt_prefix by blast
    show ?thesis unfolding e by (simp add: added_def)
  qed
  show ?thesis
    by (simp add: fst_run_query Let_def * split: sum.splits)
qed

lemma snd_run_query:
  "snd (run_query env cols question log) =
     (case llm_invoke env log (sql_prompt_format question (str_join (lit '', '') cols)) of
        Inl m \<Rightarrow> Error (failed_prefix @ m)
      | Inr r \<Rightarrow>
          (case snd (execute_with_retry env cols (str_strip r) 2
                  (log @ [Invoke (sql_prompt_format question (str_join (lit '', '') cols)) (Inr r)])) of
             Inl e \<Rightarrow> Error (failed_prefix @ exn_str e)
           | Inr None \<Rightarrow> Error (failed_prefix @ unpack_none)
           | Inr (Some (df, s)) \<Rightarrow> Answer s df))"
  by (auto simp: run_query_def generate_sql_def Let_def str_replace_id
      split: sum.splits prod.splits option.splits)

lemma three_failed_attempts:
  assumes "filter is_execute (added log (fst (execute_with_retry env cols sql 2 log))) =
      [Execute s1 (Inl e1), Execute s2 (Inl e2), Execute s3 (Inl e3)]"
  shows "last (added log (fst (execute_with_retry env cols sql 2 log))) = Execute s3 (Inl e3)"
    and "snd (execute_with_retry env cols sql 2 log) = Inl (ExecutionError e3)"
proof -
  let ?evs = "added log (fst (for_attempt env cols 2 [0..2] sql log))"
  from assms have f: "filter is_execute ?evs = [Execute s1 (Inl e1), Execute s2 (Inl e2), Execute s3 (Inl e3)]"
    by (simp add: execute_with_retry_def)
  then have len: "length (filter is_execute ?evs) = length [0..(2::int)]"
    by simp
  have ne: "[0..(2::int)] \<noteq> []" by simp
  have ex: "is_execute (last ?evs)"
    by (rule all_attempts_end_with_execute [OF ne last_upto_retries len]) simp
  from f have evs: "?evs \<noteq> []" by auto
  from last_filter_if [OF evs, of is_execute] ex f have l: "last ?evs = Execute s3 (Inl e3)"
    by simp
  then show "last (added log (fst (execute_with_retry env cols sql 2 log))) = Execute s3 (Inl e3)"
    by (simp add: execute_with_retry_def)
  from result_for_attempt [OF ne, of env cols 2 sql log] l
  show "snd (execute_with_retry env cols sql 2 log) = Inl (ExecutionError e3)"
    by (simp add: execute_with_retry_def)
qed

text \<open>
  C1. With the default \<open>retries = 2\<close>, whatever the first candidate is and whatever the
  model and the engine answer, \<open>execute_with_retry\<close> executes SQL at most three times,
  and so does the whole cycle of \<open>run_query\<close>. When three executions were made and all
  three failed, the third is the last event of the log (there is no fourth attempt and
  no further call to the model), the function raises the error of the third execution,
  and the handler shows the text of that error.
\<close>

theorem default_cycle_makes_at_most_three_attempts:
  "length (filter is_execute (added log (fst (execute_with_retry env cols sql 2 log)))) \<le> 3 \<and>
   (filter is_execute (added log (fst (execute_with_retry env cols sql 2 log))) =
      [Execute s1 (Inl e1), Execute s2 (Inl e2), Execute s3 (Inl e3)] \<longrightarrow>
      last (fst (execute_with_retry env cols sql 2 log)) = Execute s3 (Inl e3) \<and>
      snd (execute_with_retry env cols sql 2 log) = Inl (ExecutionError e3)) \<and>
   length (filter is_execute (added log (fst (run_query env cols question log)))) \<le> 3 \<and>
   (filter is_execute (added log (fst (run_query env cols question log))) =
      [Execute s1 (Inl e1), Execute s2 (Inl e2), Execute s3 (Inl e3)] \<longrightarrow>
      snd (run_query env cols question log) = Error (failed_prefix @ e3))"
proof -
  have count: "length (filter is_execute (added l (fst (execute_with_retry env cols s 2 l)))) \<le> 3"
    for s l
    using executes_le_attempts [of l env cols 2 "[0..2]" s] by (simp add: execute_with_retry_def)
  have a: "last (fst (execute_with_retry env cols sql 2 log)) = Execute s3 (Inl e3) \<and>
      snd (execute_with_retry env cols sql 2 log) = Inl (ExecutionError e3)"
    if f: "filter is_execute (added log (fst (execute_with_retry env cols sql 2 log))) =
      [Execute s1 (Inl e1), Execute s2 (Inl e2), Execute s3 (Inl e3)]"
  proof -
    from f have "added log (fst (execute_with_retry env cols sql 2 log)) \<noteq> []" by auto
    moreover have "fst (execute_with_retry env cols sql 2 log) =
        log @ added log (fst (execute_with_retry env cols sql 2 log))"
      unfolding execute_with_retry_def by (rule for_attempt_log)
    ultimately have "last (fst (execute_with_retry env cols sql 2 log)) =
        last (added log (fst (execute_with_retry env cols sql 2 log)))"
      by (metis last_appendR)
    with three_failed_attempts [OF f] show ?thesis by simp
  qed
  have b: "snd (run_query env cols question log) = Error (failed_prefix @ e3)"
    if f: "filter is_execute (added log (fst (run_query env cols question log))) =
      [Execute s1 (Inl e1), Execute s2 (Inl e2), Execute s3 (Inl e3)]"
  proof (cases "llm_invoke env log (sql_prompt_format question (str_join (lit '', '') cols))")
    case (Inl m)
    with f show ?thesis by (simp add: added_run_query Let_def)
  next
    case (Inr r)
    with f have "filter is_execute (added (log @ [Invoke (sql_prompt_format question (str_join (lit '', '') cols)) (Inr r)])
        (fst (execute_with_retry env cols (str_strip r) 2
          (log @ [Invoke (sql_prompt_format question (str_join (lit '', '') cols)) (Inr r)])))) =
      [Execute s1 (Inl e1), Execute s2 (Inl e2), Execute s3 (Inl e3)]"
      by (simp add: added_run_query Let_def)
    from three_failed_attempts(2) [OF this] Inr show ?thesis
      by (simp add: snd_run_query)
  qed
  have c: "length (filter is_execute (added log (fst (run_query env cols question log)))) \<le> 3"
    using count by (simp add: added_run_query Let_def split: sum.splits)
  from count a b c show ?thesis by blast
qed


theorem default_cycle_makes_at_most_three_attempts_witness:
  "filter is_execute (added [] (fst (execute_with_retry
     (scripted [Inr (lit ''x''), Inr (lit ''x''), Inr (lit ''x'')]
        [Inl (lit ''e1''), Inl (lit ''e2''), Inl (lit ''e3'') :: str + nat dataframe])
     [lit ''a''] (lit ''x'') 2 []))) =
     [Execute (lit ''x'') (Inl (lit ''e1'')), Execute (lit ''x'') (Inl (lit ''e2'')),
      Execute (lit ''x'') (Inl (lit ''e3''))] \<and>
   snd (execute_with_retry
     (scripted [Inr (lit ''x''), Inr (lit ''x''), Inr (lit ''x'')]
        [Inl (lit ''e1''), Inl (lit ''e2''), Inl (lit ''e3'') :: str + nat dataframe])
     [lit ''a''] (lit ''x'') 2 []) = Inl (ExecutionError (lit ''e3'')) \<and>
   filter is_execute (added [] (fst (run_query
     (scripted [Inr (lit ''x''), Inr (lit ''x''), Inr (lit ''x'')]
        [Inl (lit ''e1''), Inl (lit ''e2''), Inl (lit ''e3'') :: str + nat dataframe])
     [lit ''a''] (lit ''q'') []))) =
     [Execute (lit ''x'') (Inl (lit ''e1'')), Execute (lit ''x'') (Inl (lit ''e2'')),
      Execute (lit ''x'') (Inl (lit ''e3''))] \<and>
   snd (run_query
     (scripted [Inr (lit ''x''), Inr (lit ''x''), Inr (lit ''x'')]
        [Inl (lit ''e1''), Inl (lit ''e2''), Inl (lit ''e3'') :: str + nat dataframe])
     [lit ''a''] (lit ''q'') []) = Error (failed_prefix @ lit ''e3'')"
proof -
  let ?env = "scripted [Inr (lit ''x''), Inr (lit ''x''), Inr (lit ''x'')]
        [Inl (lit ''e1''), Inl (lit ''e2''), Inl (lit ''e3'') :: str + nat dataframe]"
  have s: "str_strip (lit ''x'') = lit ''x''"
    by (simp add: str_strip_def lit_def isspace_def)
  have e: "filter is_execute (added [] (fst (execute_with_retry ?env [lit ''a''] (lit ''x'') 2 []))) =
     [Execute (lit ''x'') (Inl (lit ''e1'')), Execute (lit ''x'') (Inl (lit ''e2'')),
      Execute (lit ''x'') (Inl (lit ''e3''))]"
    by (simp add: execute_with_retry_def default_attempts scripted_def nth_or_def Let_def
        str_replace_id s added_def)
  have q: "filter is_execute (added [] (fst (run_query ?env [lit ''a''] (lit ''q'') []))) =
     [Execute (lit ''x'') (Inl (lit ''e1'')), Execute (lit ''x'') (Inl (lit ''e2'')),
      Execute (lit ''x'') (Inl (lit ''e3''))]"
    by (simp add: run_query_def generate_sql_def execute_with_retry_def default_attempts
        scripted_def nth_or_def Let_def str_replace_id s added_def)
  show ?thesis
    using default_cycle_makes_at_most_three_attempts
      [of "[]" ?env "[lit ''a'']" "lit ''x''" "lit ''x''" "lit ''e1''" "lit ''x''" "lit ''e2''"
        "lit ''x''" "lit ''e3''" "lit ''q''"] e q
    by simp
qed

lemma failed_invoke_ends_for_attempt:
  assumes "added log (fst (for_attempt env cols retries as sql log)) = pre @ Invoke p (Inl m) # post"
  shows "post = []" and "snd (for_attempt env cols retries as sql log) = Inl (GenerationError m)"
proof -
  let ?cj = "str_join (lit '', '') cols"
  let ?evs = "added log (fst (for_attempt env cols retries as sql log))"
  have "successively (corrects ?cj) (pre @ Invoke p (Inl m) # post)"
    using corrects_for_attempt [of cols log env retries as sql] assms by simp
  from successively_after [OF this] show post: "post = []"
    by (cases "hd post") auto
  from assms have "as \<noteq> []"
    by (auto simp: added_for_attempt_eq_Nil [symmetric])
  from result_for_attempt [OF this, of env cols retries sql log] assms post
  show "snd (for_attempt env cols retries as sql log) = Inl (GenerationError m)"
    by simp
qed

text \<open>
  C4. A call to the model that raises ends the cycle: it is not retried. When the very
  first generation fails, the cycle logs that one call only (no execution, no fix call)
  and the handler shows the text of the exception. Wherever a failed call to the model
  is in the log of a cycle or of \<open>execute_with_retry\<close>, nothing comes after it, and its
  exception is what is raised and shown. Only failed executions are followed by another
  attempt.
\<close>

theorem failed_model_call_ends_the_cycle:
  "(llm_invoke env log (sql_prompt_format question (str_join (lit '', '') cols)) = Inl m \<longrightarrow>
      run_query env cols question log =
        (log @ [Invoke (sql_prompt_format question (str_join (lit '', '') cols)) (Inl m)],
         Error (failed_prefix @ m))) \<and>
   (added log (fst (run_query env cols question log)) = pre @ Invoke p (Inl m) # post \<longrightarrow>
      post = [] \<and> snd (run_query env cols question log) = Error (failed_prefix @ m)) \<and>
   (added log (fst (execute_with_retry env cols sql retries log)) = pre' @ Invoke p' (Inl m') # post' \<longrightarrow>
      post' = [] \<and> snd (execute_with_retry env cols sql retries log) = Inl (GenerationError m'))"
proof -
  let ?P = "sql_prompt_format question (str_join (lit '', '') cols)"
  have a: "llm_invoke env log ?P = Inl m \<longrightarrow>
      run_query env cols question log = (log @ [Invoke ?P (Inl m)], Error (failed_prefix @ m))"
    by (simp add: run_query_def generate_sql_def Let_def)
  have c: "post' = [] \<and> snd (execute_with_retry env cols sql retries log) = Inl (GenerationError m')"
    if "added log (fst (execute_with_retry env cols sql retries log)) = pre' @ Invoke p' (Inl m') # post'"
    using failed_invoke_ends_for_attempt [of log env cols retries "[0..retries]" sql pre' p' m' post'] that
    by (simp add: execute_with_retry_def)
  have b: "post = [] \<and> snd (run_query env cols question log) = Error (failed_prefix @ m)"
    if f: "added log (fst (run_query env cols question log)) = pre @ Invoke p (Inl m) # post"
  proof (cases "llm_invoke env log ?P")
    case (Inl m')
    with f have "[Invoke ?P (Inl m')] = pre @ Invoke p (Inl m) # post"
      by (simp add: added_run_query Let_def)
    then have "pre = [] \<and> post = [] \<and> m' = m"
      by (cases pre) auto
    with Inl show ?thesis by (simp add: snd_run_query)
  next
    case (Inr r)
    let ?l = "log @ [Invoke ?P (Inr r)]"
    from f Inr have e: "Invoke ?P (Inr r) # added ?l (fst (execute_with_retry env cols (str_strip r) 2 ?l)) =
        pre @ Invoke p (Inl m) # post"
      by (simp add: added_run_query Let_def)
    then obtain pre' where pre: "pre = Invoke ?P (Inr r) # pre'"
      by (cases pre) auto
    with e have "added ?l (fst (execute_with_retry env cols (str_strip r) 2 ?l)) =
        pre' @ Invoke p (Inl m) # post"
      by simp
    from failed_invoke_ends_for_attempt [of ?l env cols 2 "[0..2]" "str_strip r" pre' p m post] this
    have "post = [] \<and> snd (execute_with_retry env cols (str_strip r) 2 ?l) = Inl (GenerationError m)"
      by (simp add: execute_with_retry_def)
    with Inr show ?thesis by (simp add: snd_run_query)
  qed
  from a b c show ?thesis by blast
qed


theorem failed_model_call_ends_the_cycle_witness:
  "llm_invoke (scripted [Inl (lit ''quota'')] [Inl (lit ''boom'') :: str + nat dataframe]) []
     (sql_prompt_format (lit ''q'') (str_join (lit '', '') [lit ''a''])) = Inl (lit ''quota'') \<and>
   run_query (scripted [Inl (lit ''quota'')] [Inl (lit ''boom'') :: str + nat dataframe])
     [lit ''a''] (lit ''q'') [] =
     ([Invoke (sql_prompt_format (lit ''q'') (str_join (lit '', '') [lit ''a''])) (Inl (lit ''quota''))],
      Error (failed_prefix @ lit ''quota'')) \<and>
   added [] (fst (execute_with_retry
     (scripted [Inl (lit ''quota'')] [Inl (lit ''boom'') :: str + nat dataframe])
     [lit ''a''] (lit ''x'') 2 [])) =
     [Execute (lit ''x'') (Inl (lit ''boom''))] @
     Invoke (fix_prompt_format (lit ''x'') (lit ''boom'') (str_join (lit '', '') [lit ''a'']))
       (Inl (lit ''quota'')) # [] \<and>
   snd (execute_with_retry
     (scripted [Inl (lit ''quota'')] [Inl (lit ''boom'') :: str + nat dataframe])
     [lit ''a''] (lit ''x'') 2 []) = Inl (GenerationError (lit ''quota''))"
proof -
  let ?env = "scripted [Inl (lit ''quota'')] [Inl (lit ''boom'') :: str + nat dataframe]"
  let ?P = "sql_prompt_format (lit ''q'') (str_join (lit '', '') [lit ''a''])"
  let ?F = "fix_prompt_format (lit ''x'') (lit ''boom'') (str_join (lit '', '') [lit ''a''])"
  have g: "llm_invoke ?env [] ?P = Inl (lit ''quota'')"
    by (simp add: scripted_def nth_or_def)
  have q: "added [] (fst (run_query ?env [lit ''a''] (lit ''q'') [])) =
      [] @ Invoke ?P (Inl (lit ''quota'')) # []"
    by (simp add: run_query_def generate_sql_def scripted_def nth_or_def Let_def added_def)
  have e: "added [] (fst (execute_with_retry ?env [lit ''a''] (lit ''x'') 2 [])) =
      [Execute (lit ''x'') (Inl (lit ''boom''))] @ Invoke ?F (Inl (lit ''quota'')) # []"
    by (simp add: execute_with_retry_def default_attempts scripted_def nth_or_def Let_def added_def)
  show ?thesis
    using failed_model_call_ends_the_cycle
      [of ?env "[]" "lit ''q''" "[lit ''a'']" "lit ''quota''" "[]" ?P "[]" "lit ''x''" 2
        "[Execute (lit ''x'') (Inl (lit ''boom''))]" ?F "lit ''quota''" "[]"] g q e
    by simp
qed

text \<open>
  C7, as the code has it. When a run ends with a failed execution, the bound was reached
  (\<open>retries + 1\<close> executions were made, three in the cycle of \<open>run_query\<close>), and what is
  raised is the exception of that last execution, whose text is the engine's message
  alone; the handler shows that text after its fixed prefix. The SQL attempted last is in
  the log of the run, not in the failure.
\<close>

theorem exhausted_retries_raise_last_error:
  "(added log (fst (execute_with_retry env cols sql retries log)) = pre @ [Execute s (Inl e)] \<longrightarrow>
      length (filter is_execute (added log (fst (execute_with_retry env cols sql retries log)))) =
        nat retries + 1 \<and>
      snd (execute_with_retry env cols sql retries log) = Inl (ExecutionError e) \<and>
      exn_str (ExecutionError e) = e) \<and>
   (added log (fst (run_query env cols question log)) = pre' @ [Execute s' (Inl e')] \<longrightarrow>
      length (filter is_execute (added log (fst (run_query env cols question log)))) = 3 \<and>
      snd (run_query env cols question log) = Error (failed_prefix @ e'))"
proof -
  have a: "length (filter is_execute (added l (fst (execute_with_retry env cols q r l)))) = nat r + 1 \<and>
      snd (execute_with_retry env cols q r l) = Inl (ExecutionError x)"
    if h: "added l (fst (execute_with_retry env cols q r l)) = p @ [Execute t (Inl x)]"
    for l q r p t x
  proof -
    let ?evs = "added l (fst (for_attempt env cols r [0..r] q l))"
    from h have evs: "?evs = p @ [Execute t (Inl x)]"
      by (simp add: execute_with_retry_def)
    then have "?evs \<noteq> []" by simp
    then have ne: "[0..r] \<noteq> []"
      by (simp add: added_for_attempt_eq_Nil)
    then have r: "0 \<le> r" by simp
    from evs have l: "last ?evs = Execute t (Inl x)" by simp
    from bound_reached_for_attempt [OF ne _ last_upto_retries [OF r] l] r
    have "length (filter is_execute ?evs) = nat r + 1" by simp
    moreover from result_for_attempt [OF ne, of env cols r q l] l
    have "snd (for_attempt env cols r [0..r] q l) = Inl (ExecutionError x)" by simp
    ultimately show ?thesis
      by (simp add: execute_with_retry_def)
  qed
  have b: "length (filter is_execute (added log (fst (run_query env cols question log)))) = 3 \<and>
      snd (run_query env cols question log) = Error (failed_prefix @ e')"
    if h: "added log (fst (run_query env cols question log)) = pre' @ [Execute s' (Inl e')]"
  proof (cases "llm_invoke env log (sql_prompt_format question (str_join (lit '', '') cols))")
    case (Inl m)
    with h show ?thesis
      by (cases pre') (simp_all add: added_run_query Let_def)
  next
    case (Inr r)
    let ?P = "sql_prompt_format question (str_join (lit '', '') cols)"
    let ?l = "log @ [Invoke ?P (Inr r)]"
    from h Inr have e: "Invoke ?P (Inr r) # added ?l (fst (execute_with_retry env cols (str_strip r) 2 ?l)) =
        pre' @ [Execute s' (Inl e')]"
      by (simp add: added_run_query Let_def)
    then obtain p where "pre' = Invoke ?P (Inr r) # p"
      by (cases pre') auto
    with e have "added ?l (fst (execute_with_retry env cols (str_strip r) 2 ?l)) = p @ [Execute s' (Inl e')]"
      by simp
    from a [OF this] Inr show ?thesis
      by (simp add: added_run_query snd_run_query Let_def)
  qed
  from a [of log sql retries pre s e] b show ?thesis by simp
qed


theorem exhausted_retries_raise_last_error_witness:
  "added [] (fst (execute_with_retry
     (scripted [Inr (lit ''b''), Inr (lit ''x''), Inr (lit ''y'')]
        [Inl (lit ''e1''), Inl (lit ''e2''), Inl (lit ''boom'') :: str + nat dataframe])
     [lit ''a''] (lit ''a'') 2 [])) =
     [Execute (lit ''a'') (Inl (lit ''e1'')),
      Invoke (fix_prompt_format (lit ''a'') (lit ''e1'') (str_join (lit '', '') [lit ''a'']))
        (Inr (lit ''b'')),
      Execute (lit ''b'') (Inl (lit ''e2'')),
      Invoke (fix_prompt_format (lit ''b'') (lit ''e2'') (str_join (lit '', '') [lit ''a'']))
        (Inr (lit ''x''))] @ [Execute (lit ''x'') (Inl (lit ''boom''))] \<and>
   snd (execute_with_retry
     (scripted [Inr (lit ''b''), Inr (lit ''x''), Inr (lit ''y'')]
        [Inl (lit ''e1''), Inl (lit ''e2''), Inl (lit ''boom'') :: str + nat dataframe])
     [lit ''a''] (lit ''a'') 2 []) = Inl (ExecutionError (lit ''boom'')) \<and>
   added [] (fst (run_query
     (scripted [Inr (lit ''b''), Inr (lit ''x''), Inr (lit ''y'')]
        [Inl (lit ''e1''), Inl (lit ''e2''), Inl (lit ''boom'') :: str + nat dataframe])
     [lit ''a''] (lit ''q'') [])) =
     [Invoke (sql_prompt_format (lit ''q'') (str_join (lit '', '') [lit ''a''])) (Inr (lit ''b'')),
      Execute (lit ''b'') (Inl (lit ''e1'')),
      Invoke (fix_prompt_format (lit ''b'') (lit ''e1'') (str_join (lit '', '') [lit ''a'']))
        (Inr (lit ''x'')),
      Execute (lit ''x'') (Inl (lit ''e2'')),
      Invoke (fix_prompt_format (lit ''x'') (lit ''e2'') (str_join (lit '', '') [lit ''a'']))
        (Inr (lit ''y''))] @ [Execute (lit ''y'') (Inl (lit ''boom''))] \<and>
   snd (run_query
     (scripted [Inr (lit ''b''), Inr (lit ''x''), Inr (lit ''y'')]
        [Inl (lit ''e1''), Inl (lit ''e2''), Inl (lit ''boom'') :: str + nat dataframe])
     [lit ''a''] (lit ''q'') []) = Error (failed_prefix @ lit ''boom'')"
proof -
  let ?env = "scripted [Inr (lit ''b''), Inr (lit ''x''), Inr (lit ''y'')]
        [Inl (lit ''e1''), Inl (lit ''e2''), Inl (lit ''boom'') :: str + nat dataframe]"
  let ?cj = "str_join (lit '', '') [lit ''a'']"
  let ?pre = "[Execute (lit ''a'') (Inl (lit ''e1'')),
      Invoke (fix_prompt_format (lit ''a'') (lit ''e1'') ?cj) (Inr (lit ''b'')),
      Execute (lit ''b'') (Inl (lit ''e2'')),
      Invoke (fix_prompt_format (lit ''b'') (lit ''e2'') ?cj) (Inr (lit ''x''))] :: nat event list"
  let ?pre' = "[Invoke (sql_prompt_format (lit ''q'') ?cj) (Inr (lit ''b'')),
      Execute (lit ''b'') (Inl (lit ''e1'')),
      Invoke (fix_prompt_format (lit ''b'') (lit ''e1'') ?cj) (Inr (lit ''x'')),
      Execute (lit ''x'') (Inl (lit ''e2'')),
      Invoke (fix_prompt_format (lit ''x'') (lit ''e2'') ?cj) (Inr (lit ''y''))] :: nat event list"
  have s: "str_strip (lit ''b'') = lit ''b''" "str_strip (lit ''x'') = lit ''x''"
    "str_strip (lit ''y'') = lit ''y''"
    by (simp_all add: str_strip_def lit_def isspace_def)
  have e: "added [] (fst (execute_with_retry ?env [lit ''a''] (lit ''a'') 2 [])) =
      ?pre @ [Execute (lit ''x'') (Inl (lit ''boom''))]"
    by (simp add: execute_with_retry_def default_attempts scripted_def nth_or_def Let_def
        str_replace_id s added_def)
  have q: "added [] (fst (run_query ?env [lit ''a''] (lit ''q'') [])) =
      ?pre' @ [Execute (lit ''y'') (Inl (lit ''boom''))]"
    by (simp add: run_query_def generate_sql_def execute_with_retry_def default_attempts
        scripted_def nth_or_def Let_def str_replace_id s added_def)
  show ?thesis
    using exhausted_retries_raise_last_error
      [of "[]" ?env "[lit ''a'']" "lit ''a''" 2 ?pre "lit ''x''" "lit ''boom''"
        "lit ''q''" ?pre' "lit ''y''" "lit ''boom''"] e q
    by simp
qed

text \<open>
  The failure does not carry the SQL attempted last: two cycles whose last candidates
  differ (\<open>x\<close> and \<open>y\<close>) and whose last executions fail with the same message show the same
  failure.
\<close>

theorem failure_carries_no_sql_counterexample:
  "snd (run_query
     (scripted [Inr (lit ''b''), Inr (lit ''c''), Inr (lit ''x'')]
        [Inl (lit ''e1''), Inl (lit ''e2''), Inl (lit ''boom'') :: str + nat dataframe])
     [lit ''a''] (lit ''q'') []) = Error (failed_prefix @ lit ''boom'') \<and>
   snd (run_query
     (scripted [Inr (lit ''b''), Inr (lit ''c''), Inr (lit ''y'')]
        [Inl (lit ''e1''), Inl (lit ''e2''), Inl (lit ''boom'') :: str + nat dataframe])
     [lit ''a''] (lit ''q'') []) = Error (failed_prefix @ lit ''boom'') \<and>
   last (fst (run_query
     (scripted [Inr (lit ''b''), Inr (lit ''c''), Inr (lit ''x'')]
        [Inl (lit ''e1''), Inl (lit ''e2''), Inl (lit ''boom'') :: str + nat dataframe])
     [lit ''a''] (lit ''q'') [])) = Execute (lit ''x'') (Inl (lit ''boom'')) \<and>
   last (fst (run_query
     (scripted [Inr (lit ''b''), Inr (lit ''c''), Inr (lit ''y'')]
        [Inl (lit ''e1''), Inl (lit ''e2''), Inl (lit ''boom'') :: str + nat dataframe])
     [lit ''a''] (lit ''q'') [])) = Execute (lit ''y'') (Inl (lit ''boom'')) \<and>
   lit ''x'' \<noteq> lit ''y''"
proof -
  have s: "str_strip (lit ''b'') = lit ''b''" "str_strip (lit ''c'') = lit ''c''"
    "str_strip (lit ''x'') = lit ''x''" "str_strip (lit ''y'') = lit ''y''"
    by (simp_all add: str_strip_def lit_def isspace_def)
  have n: "lit ''x'' \<noteq> lit ''y''"
    by (simp add: lit_def)
  show ?thesis
    by (simp add: run_query_def generate_sql_def execute_with_retry_def default_attempts
        scripted_def nth_or_def Let_def str_replace_id s n)
qed

lemma success_ends_for_attempt:
  assumes "added log (fst (for_attempt env cols retries as sql log)) = pre @ Execute s (Inr df) # post"
  shows "post = []"
    and "snd (for_attempt env cols retries as sql log) = Inr (Some (df, s))"
    and "con_execute env (log @ pre) s = Inr df"
proof -
  let ?cj = "str_join (lit '', '') cols"
  let ?run = "for_attempt env cols retries as sql log"
  have "successively (corrects ?cj) (pre @ Execute s (Inr df) # post)"
    using corrects_for_attempt [of cols log env retries as sql] assms by simp
  from successively_after [OF this] show post: "post = []"
    by (cases "hd post") auto
  from assms have ne: "as \<noteq> []"
    by (auto simp: added_for_attempt_eq_Nil [symmetric])
  from result_for_attempt [OF ne, of env cols retries sql log] assms post
  show "snd ?run = Inr (Some (df, s))"
    by simp
  from for_attempt_log [of env cols retries as sql log] assms post
  have log: "fst ?run = (log @ pre) @ [Execute s (Inr df)]"
    by simp
  then have "last (fst ?run) = Execute s (Inr df)" and "butlast (fst ?run) = log @ pre"
    by (simp_all only: last_snoc butlast_snoc)
  with last_execute_for_attempt [OF ne, of env cols retries sql log s "Inr df"]
  show "con_execute env (log @ pre) s = Inr df"
    by simp
qed

text \<open>
  C5. When an execution succeeds in \<open>execute_with_retry\<close> (the engine answers the
  candidate \<open>s\<close> with the data frame \<open>df\<close>), nothing follows it and the function returns
  the pair of that data frame and that SQL. Conversely a returned pair is read off the
  last event of the log, the successful execution of exactly that SQL, which is what the
  engine answered to it at that point. So the SQL returned is the candidate that produced
  the rows, also when it is a corrected candidate. In the cycle of \<open>run_query\<close> the
  handler then shows that SQL with that data frame.
\<close>

theorem success_returns_the_executed_candidate:
  "(added log (fst (execute_with_retry env cols sql retries log)) = pre @ Execute s (Inr df) # post \<longrightarrow>
      post = [] \<and>
      con_execute env (log @ pre) s = Inr df \<and>
      snd (execute_with_retry env cols sql retries log) = Inr (Some (df, s))) \<and>
   (snd (execute_with_retry env cols sql retries log) = Inr (Some (df', s')) \<longrightarrow>
      length log < length (fst (execute_with_retry env cols sql retries log)) \<and>
      last (fst (execute_with_retry env cols sql retries log)) = Execute s' (Inr df') \<and>
      con_execute env (butlast (fst (execute_with_retry env cols sql retries log))) s' = Inr df') \<and>
   (added log (fst (run_query env cols question log)) = pre'' @ Execute s'' (Inr df'') # post'' \<longrightarrow>
      post'' = [] \<and> snd (run_query env cols question log) = Answer s'' df'')"
proof -
  have a: "post = [] \<and> con_execute env (log @ pre) s = Inr df \<and>
      snd (execute_with_retry env cols sql retries log) = Inr (Some (df, s))"
    if "added log (fst (execute_with_retry env cols sql retries log)) = pre @ Execute s (Inr df) # post"
    using success_ends_for_attempt [of log env cols retries "[0..retries]" sql pre s df post] that
    by (simp add: execute_with_retry_def)
  have b: "length log < length (fst (execute_with_retry env cols sql retries log)) \<and>
      last (fst (execute_with_retry env cols sql retries log)) = Execute s' (Inr df') \<and>
      con_execute env (butlast (fst (execute_with_retry env cols sql retries log))) s' = Inr df'"
    if h: "snd (execute_with_retry env cols sql retries log) = Inr (Some (df', s'))"
  proof -
    let ?run = "for_attempt env cols retries [0..retries] sql log"
    let ?evs = "added log (fst ?run)"
    from h have res: "snd ?run = Inr (Some (df', s'))"
      by (simp add: execute_with_retry_def)
    have ne: "[0..retries] \<noteq> []"
    proof
      assume "[0..retries] = []"
      with res show False by simp
    qed
    then have evs: "?evs \<noteq> []"
      by (simp add: added_for_attempt_eq_Nil)
    have log: "fst ?run = log @ ?evs"
      by (rule for_attempt_log)
    from res result_for_attempt [OF ne, of env cols retries sql log]
    have "result_of_event (last ?evs) = Inr (Some (df', s'))"
      by simp
    then have "last ?evs = Execute s' (Inr df')"
      by (cases "last ?evs" rule: result_of_event.cases) simp_all
    with evs log have last: "last (fst ?run) = Execute s' (Inr df')"
      by (metis last_appendR)
    from evs log have "length log < length (fst ?run)"
      by (metis length_append length_greater_0_conv less_add_same_cancel1)
    with last last_execute_for_attempt [OF ne last] show ?thesis
      by (simp add: execute_with_retry_def)
  qed
  have c: "post'' = [] \<and> snd (run_query env cols question log) = Answer s'' df''"
    if f: "added log (fst (run_query env cols question log)) = pre'' @ Execute s'' (Inr df'') # post''"
  proof (cases "llm_invoke env log (sql_prompt_format question (str_join (lit '', '') cols))")
    case (Inl m)
    with f show ?thesis
      by (cases pre'') (simp_all add: added_run_query Let_def)
  next
    case (Inr r)
    let ?P = "sql_prompt_format question (str_join (lit '', '') cols)"
    let ?l = "log @ [Invoke ?P (Inr r)]"
    from f Inr have e: "Invoke ?P (Inr r) # added ?l (fst (execute_with_retry env cols (str_strip r) 2 ?l)) =
        pre'' @ Execute s'' (Inr df'') # post''"
      by (simp add: added_run_query Let_def)
    then obtain p where "pre'' = Invoke ?P (Inr r) # p"
      by (cases pre'') auto
    with e have "added ?l (fst (execute_with_retry env cols (str_strip r) 2 ?l)) =
        p @ Execute s'' (Inr df'') # post''"
      by simp
    from success_ends_for_attempt(1,2) [of ?l env cols 2 "[0..2]" "str_strip r" p s'' df'' post''] this
    have "post'' = [] \<and> snd (execute_with_retry env cols (str_strip r) 2 ?l) = Inr (Some (df'', s''))"
      by (simp add: execute_with_retry_def)
    with Inr show ?thesis by (simp add: snd_run_query)
  qed
  from a b c show ?thesis by blast
qed


theorem success_returns_the_executed_candidate_witness:
  "added [] (fst (execute_with_retry
     (scripted [Inr (lit '' SELECT region ''), Inr (lit ''SELECT region'')]
        [Inl (lit ''no column regoin''), Inr \<lparr>df_columns = [lit ''region''], df_rows = [[5::nat]]\<rparr>])
     [lit ''region''] (lit ''SELECT regoin'') 2 [])) =
     [Execute (lit ''SELECT regoin'') (Inl (lit ''no column regoin'')),
      Invoke (fix_prompt_format (lit ''SELECT regoin'') (lit ''no column regoin'')
        (str_join (lit '', '') [lit ''region''])) (Inr (lit '' SELECT region ''))] @
     Execute (lit ''SELECT region'') (Inr \<lparr>df_columns = [lit ''region''], df_rows = [[5]]\<rparr>) # [] \<and>
   execute_with_retry
     (scripted [Inr (lit '' SELECT region ''), Inr (lit ''SELECT region'')]
        [Inl (lit ''no column regoin''), Inr \<lparr>df_columns = [lit ''region''], df_rows = [[5::nat]]\<rparr>])
     [lit ''region''] (lit ''SELECT regoin'') 2 [] =
     ([Execute (lit ''SELECT regoin'') (Inl (lit ''no column regoin'')),
       Invoke (fix_prompt_format (lit ''SELECT regoin'') (lit ''no column regoin'')
         (str_join (lit '', '') [lit ''region''])) (Inr (lit '' SELECT region '')),
       Execute (lit ''SELECT region'') (Inr \<lparr>df_columns = [lit ''region''], df_rows = [[5]]\<rparr>)],
      Inr (Some (\<lparr>df_columns = [lit ''region''], df_rows = [[5]]\<rparr>, lit ''SELECT region''))) \<and>
   run_query
     (scripted [Inr (lit '' SELECT region ''), Inr (lit ''SELECT region'')]
        [Inl (lit ''no column regoin''), Inr \<lparr>df_columns = [lit ''region''], df_rows = [[5::nat]]\<rparr>])
     [lit ''region''] (lit ''q'') [] =
     ([Invoke (sql_prompt_format (lit ''q'') (str_join (lit '', '') [lit ''region'']))
         (Inr (lit '' SELECT region '')),
       Execute (lit ''SELECT region'') (Inl (lit ''no column regoin'')),
       Invoke (fix_prompt_format (lit ''SELECT region'') (lit ''no column regoin'')
         (str_join (lit '', '') [lit ''region''])) (Inr (lit ''SELECT region'')),
       Execute (lit ''SELECT region'') (Inr \<lparr>df_columns = [lit ''region''], df_rows = [[5]]\<rparr>)],
      Answer (lit ''SELECT region'') \<lparr>df_columns = [lit ''region''], df_rows = [[5]]\<rparr>)"
proof -
  let ?df = "\<lparr>df_columns = [lit ''region''], df_rows = [[5::nat]]\<rparr>"
  let ?env = "scripted [Inr (lit '' SELECT region ''), Inr (lit ''SELECT region'')]
      [Inl (lit ''no column regoin''), Inr ?df]"
  let ?cj = "str_join (lit '', '') [lit ''region'']"
  let ?pre = "[Execute (lit ''SELECT regoin'') (Inl (lit ''no column regoin'')),
      Invoke (fix_prompt_format (lit ''SELECT regoin'') (lit ''no column regoin'') ?cj)
        (Inr (lit '' SELECT region ''))] :: nat event list"
  let ?pre2 = "[Invoke (sql_prompt_format (lit ''q'') ?cj) (Inr (lit '' SELECT region '')),
      Execute (lit ''SELECT region'') (Inl (lit ''no column regoin'')),
      Invoke (fix_prompt_format (lit ''SELECT region'') (lit ''no column regoin'') ?cj)
        (Inr (lit ''SELECT region''))] :: nat event list"
  have s: "str_strip (lit '' SELECT region '') = lit ''SELECT region''"
      "str_strip (lit ''SELECT region'') = lit ''SELECT region''"
    by (simp_all add: str_strip_def lit_def isspace_def)
  have e: "execute_with_retry ?env [lit ''region''] (lit ''SELECT regoin'') 2 [] =
      (?pre @ [Execute (lit ''SELECT region'') (Inr ?df)], Inr (Some (?df, lit ''SELECT region'')))"
    by (simp add: execute_with_retry_def default_attempts scripted_def nth_or_def Let_def
        str_replace_id s)
  have q: "run_query ?env [lit ''region''] (lit ''q'') [] =
      (?pre2 @ [Execute (lit ''SELECT region'') (Inr ?df)], Answer (lit ''SELECT region'') ?df)"
    by (simp add: run_query_def generate_sql_def execute_with_retry_def default_attempts
        scripted_def nth_or_def Let_def str_replace_id s)
  show ?thesis
    using success_returns_the_executed_candidate
      [of "[]" ?env "[lit ''region'']" "lit ''SELECT regoin''" 2 ?pre "lit ''SELECT region''" ?df
        "[]" ?df "lit ''SELECT region''" "lit ''q''" ?pre2 "lit ''SELECT region''" ?df "[]"]
    by (simp add: e q added_def)
qed

lemma upload_eq:
  "upload previous engine df =
     Inr \<lparr>con_of = [lit ''df'' \<mapsto> Registered df, lit ''data'' \<mapsto> Table (select_all engine df)],
          columns_of = df_columns df\<rparr>"
  by (simp add: upload_def duckdb_connect_def register_def
      create_or_replace_table_as_select_all_def Let_def)

lemma lit_df_neq_data: "lit ''df'' \<noteq> lit ''data''"
  by (simp add: lit_def)

text \<open>
  C8. Loading a data frame, whatever an earlier run of the script had loaded, gives a
  connection whose table \<open>data\<close> is what the engine reads out of the new data frame,
  whole, and whose only relations are the registered frame and that table; \<open>columns\<close> is
  the column list of the new data frame, in its order. Registering the frame and running
  \<open>CREATE OR REPLACE TABLE data AS SELECT * FROM df\<close> on any connection replaces a table
  \<open>data\<close> that the connection already has and leaves its other relations alone. A
  second upload gives what a first upload of the same frame gives. The script keeps this
  connection and this column list for what follows.
\<close>

theorem upload_replaces_table_and_schema:
  "(\<exists>s. upload previous engine df = Inr s \<and>
         con_of s (lit ''data'') = Some (Table (select_all engine df)) \<and>
         dom (con_of s) = {lit ''df'', lit ''data''} \<and>
         columns_of s = df_columns df) \<and>
   (\<exists>con1. create_or_replace_table_as_select_all engine (register con0 (lit ''df'') df)
            (lit ''data'') (lit ''df'') = Inr con1 \<and>
         con1 (lit ''data'') = Some (Table (select_all engine df)) \<and>
         (\<forall>name. name \<noteq> lit ''data'' \<and> name \<noteq> lit ''df'' \<longrightarrow> con1 name = con0 name)) \<and>
   (upload previous engine df0 = Inr s0 \<longrightarrow>
      upload (Some s0) engine df = upload None engine df) \<and>
   (uploaded_file w = Some (Inr df) \<and> \<not> button w \<longrightarrow>
      (\<exists>s. script previous engine env w log = (log, Ready s) \<and>
         con_of s (lit ''data'') = Some (Table (select_all engine df)) \<and>
         columns_of s = df_columns df))"
proof -
  have a: "\<exists>s. upload previous engine df = Inr s \<and>
         con_of s (lit ''data'') = Some (Table (select_all engine df)) \<and>
         dom (con_of s) = {lit ''df'', lit ''data''} \<and>
         columns_of s = df_columns df"
    by (auto simp: upload_eq lit_df_neq_data)
  have b: "\<exists>con1. create_or_replace_table_as_select_all engine (register con0 (lit ''df'') df)
            (lit ''data'') (lit ''df'') = Inr con1 \<and>
         con1 (lit ''data'') = Some (Table (select_all engine df)) \<and>
         (\<forall>name. name \<noteq> lit ''data'' \<and> name \<noteq> lit ''df'' \<longrightarrow> con1 name = con0 name)"
    by (simp add: create_or_replace_table_as_select_all_def register_def)
  have c: "upload (Some s0) engine df = upload None engine df"
    by (simp add: upload_eq)
  have d: "uploaded_file w = Some (Inr df) \<and> \<not> button w \<longrightarrow>
      (\<exists>s. script previous engine env w log = (log, Ready s) \<and>
         con_of s (lit ''data'') = Some (Table (select_all engine df)) \<and>
         columns_of s = df_columns df)"
    by (simp add: script_def upload_eq)
  from a b c d show ?thesis by blast
qed

lemma str_join_concat:
  "str_join sep xs =
     (if xs = [] then [] else concat (map (\<lambda>x. x @ sep) (butlast xs)) @ last xs)"
  by (induction sep xs rule: str_join.induct) simp_all

lemma lit_comma_space: "lit '', '' = [44, 32]"
  by (simp add: lit_def)

lemma lit_newline: "lit ''\<newline>'' = [10]"
  by (simp add: lit_def)

text \<open>
  C6. In a run of the script on an uploaded data frame with columns c1, ..., cN (the
  column list pandas gives, \<open>list(df.columns)\<close>), every prompt sent to the model is the
  text of the generation template or of the fix template in which the columns slot holds
  exactly \<open>c1, c2, ..., cN\<close>: every name but the last followed by a comma and a space,
  then the last name. This holds whatever an earlier run of the script had bound: no
  prompt carries the columns of a file uploaded before.
\<close>

theorem prompts_carry_the_current_columns:
  "uploaded_file w = Some (Inr df) \<and>
   Invoke p a \<in> set (added log (fst (script previous engine env w log))) \<longrightarrow>
     p = sql_prompt_head @
         (if df_columns df = [] then []
          else concat (map (\<lambda>c. c @ [44, 32]) (butlast (df_columns df))) @ last (df_columns df)) @
         sql_prompt_rules @ text_input w @ [10] \<or>
     (\<exists>s e. p = fix_prompt_head @ s @ fix_prompt_error @ e @ fix_prompt_columns @
         (if df_columns df = [] then []
          else concat (map (\<lambda>c. c @ [44, 32]) (butlast (df_columns df))) @ last (df_columns df)) @
         fix_prompt_tail)"
proof
  let ?cj = "str_join (lit '', '') (df_columns df)"
  let ?P = "sql_prompt_format (text_input w) ?cj"
  assume h: "uploaded_file w = Some (Inr df) \<and>
   Invoke p a \<in> set (added log (fst (script previous engine env w log)))"
  have "p = ?P \<or> (\<exists>s e. p = fix_prompt_format s e ?cj)"
  proof (cases "button w \<and> text_input w \<noteq> []")
    case False
    with h show ?thesis
      by (auto simp: script_def upload_eq)
  next
    case True
    with h have i: "Invoke p a \<in> set (added log (fst (run_query env (df_columns df) (text_input w) log)))"
      by (auto simp: script_def upload_eq split: prod.splits)
    show ?thesis
    proof (cases "llm_invoke env log ?P")
      case (Inl m)
      with i show ?thesis by (simp add: added_run_query Let_def)
    next
      case (Inr r)
      with i have "p = ?P \<or> Invoke p a \<in> set (added (log @ [Invoke ?P (Inr r)])
          (fst (for_attempt env (df_columns df) 2 [0..2] (str_strip r) (log @ [Invoke ?P (Inr r)]))))"
        by (auto simp: added_run_query Let_def execute_with_retry_def)
      with prompts_for_attempt show ?thesis by blast
    qed
  qed
  moreover have "?cj = (if df_columns df = [] then []
          else concat (map (\<lambda>c. c @ [44, 32]) (butlast (df_columns df))) @ last (df_columns df))"
    by (simp add: str_join_concat lit_comma_space)
  ultimately show "p = sql_prompt_head @
         (if df_columns df = [] then []
          else concat (map (\<lambda>c. c @ [44, 32]) (butlast (df_columns df))) @ last (df_columns df)) @
         sql_prompt_rules @ text_input w @ [10] \<or>
     (\<exists>s e. p = fix_prompt_head @ s @ fix_prompt_error @ e @ fix_prompt_columns @
         (if df_columns df = [] then []
          else concat (map (\<lambda>c. c @ [44, 32]) (butlast (df_columns df))) @ last (df_columns df)) @
         fix_prompt_tail)"
    by (simp only: sql_prompt_format_def fix_prompt_format_def lit_newline)
qed


theorem upload_replaces_table_and_schema_witness:
  "upload (Some \<lparr>con_of = [lit ''data'' \<mapsto> Table \<lparr>df_columns = [lit ''old''], df_rows = [[7::nat]]\<rparr>],
                     columns_of = [lit ''old'']\<rparr>)
     \<lparr>select_all = (\<lambda>d. d\<lparr>df_columns := [lit ''a'', lit ''A_1'']\<rparr>), catalog_error = (\<lambda>n. n)\<rparr>
     \<lparr>df_columns = [lit ''a'', lit ''A''], df_rows = [[3, 10], [4, 20]]\<rparr> =
     Inr \<lparr>con_of =
            [lit ''df'' \<mapsto> Registered \<lparr>df_columns = [lit ''a'', lit ''A''], df_rows = [[3, 10], [4, 20]]\<rparr>,
             lit ''data'' \<mapsto> Table \<lparr>df_columns = [lit ''a'', lit ''A_1''], df_rows = [[3, 10], [4, 20]]\<rparr>],
          columns_of = [lit ''a'', lit ''A'']\<rparr> \<and>
   uploaded_file \<lparr>uploaded_file = Some (Inr \<lparr>df_columns = [lit ''a'', lit ''A''], df_rows = [[3, 10], [4, 20::nat]]\<rparr>),
                    button = False, text_input = lit ''q''\<rparr> =
     Some (Inr \<lparr>df_columns = [lit ''a'', lit ''A''], df_rows = [[3, 10], [4, 20]]\<rparr>) \<and>
   \<not> button \<lparr>uploaded_file = Some (Inr \<lparr>df_columns = [lit ''a'', lit ''A''], df_rows = [[3, 10], [4, 20::nat]]\<rparr>),
                    button = False, text_input = lit ''q''\<rparr> \<and>
   (\<exists>con1. create_or_replace_table_as_select_all
       \<lparr>select_all = (\<lambda>d. d\<lparr>df_columns := [lit ''a'', lit ''A_1'']\<rparr>), catalog_error = (\<lambda>n. n)\<rparr>
       (register [lit ''data'' \<mapsto> Table \<lparr>df_columns = [lit ''old''], df_rows = [[7::nat]]\<rparr>]
          (lit ''df'') \<lparr>df_columns = [lit ''a'', lit ''A''], df_rows = [[3, 10], [4, 20]]\<rparr>)
       (lit ''data'') (lit ''df'') = Inr con1 \<and>
     con1 (lit ''data'') =
       Some (Table \<lparr>df_columns = [lit ''a'', lit ''A_1''], df_rows = [[3, 10], [4, 20]]\<rparr>))"
proof -
  let ?old = "\<lparr>df_columns = [lit ''old''], df_rows = [[7::nat]]\<rparr>"
  let ?df = "\<lparr>df_columns = [lit ''a'', lit ''A''], df_rows = [[3, 10], [4, 20::nat]]\<rparr>"
  let ?engine = "\<lparr>select_all = (\<lambda>d :: nat dataframe. d\<lparr>df_columns := [lit ''a'', lit ''A_1'']\<rparr>),
      catalog_error = (\<lambda>n. n)\<rparr>"
  let ?prev = "\<lparr>con_of = [lit ''data'' \<mapsto> Table ?old], columns_of = [lit ''old'']\<rparr>"
  let ?w = "\<lparr>uploaded_file = Some (Inr ?df), button = False, text_input = lit ''q''\<rparr>"
  show ?thesis
    using upload_replaces_table_and_schema
      [of "Some ?prev" ?engine ?df "[lit ''data'' \<mapsto> Table ?old]" ?old ?prev ?w "scripted [] []" "[]"]
    by (auto simp: upload_eq)
qed

theorem prompts_carry_the_current_columns_witness:
  "uploaded_file \<lparr>uploaded_file = Some (Inr \<lparr>df_columns = [lit ''region'', lit ''sales''], df_rows = [[3, 10::nat]]\<rparr>),
                    button = True, text_input = lit ''total sales by region''\<rparr> =
     Some (Inr \<lparr>df_columns = [lit ''region'', lit ''sales''], df_rows = [[3, 10]]\<rparr>) \<and>
   added [] (fst (script
       (Some \<lparr>con_of = [lit ''data'' \<mapsto> Table \<lparr>df_columns = [lit ''old''], df_rows = [[7::nat]]\<rparr>],
                    columns_of = [lit ''old'']\<rparr>)
       \<lparr>select_all = (\<lambda>d. d), catalog_error = (\<lambda>n. n)\<rparr>
       (scripted [Inr (lit ''SELECT regoin FROM data''), Inr (lit ''SELECT region FROM data'')]
          [Inl (lit ''no column regoin''), Inr \<lparr>df_columns = [lit ''region''], df_rows = [[3]]\<rparr>])
       \<lparr>uploaded_file = Some (Inr \<lparr>df_columns = [lit ''region'', lit ''sales''], df_rows = [[3, 10]]\<rparr>),
          button = True, text_input = lit ''total sales by region''\<rparr> [])) =
     [Invoke (map of_char (''\<newline>You are a senior SQL expert.\<newline>\<newline>Table: data\<newline>Columns: region, sales\<newline>\<newline>Rules:\<newline>- Output ONLY SQL\<newline>- Use correct aggregate functions\<newline>'' @
        ''- Use GROUP BY properly\<newline>- DuckDB compatible SQL only\<newline>- No explanations\<newline>\<newline>Question:\<newline>total sales by region\<newline>'')) (Inr (lit ''SELECT regoin FROM data'')),
      Execute (lit ''SELECT regoin FROM data'') (Inl (lit ''no column regoin'')),
      Invoke (map of_char (''\<newline>The following SQL caused an error:\<newline>\<newline>SQL:\<newline>SELECT regoin FROM data\<newline>\<newline>Error:\<newline>no column regoin\<newline>\<newline>Table columns:\<newline>region, sales\<newline>'' @
        ''\<newline>Fix the SQL so that it executes correctly.\<newline>Return ONLY corrected SQL.\<newline>'')) (Inr (lit ''SELECT region FROM data'')),
      Execute (lit ''SELECT region FROM data'') (Inr \<lparr>df_columns = [lit ''region''], df_rows = [[3]]\<rparr>)]"
proof -
  let ?old = "\<lparr>df_columns = [lit ''old''], df_rows = [[7::nat]]\<rparr>"
  let ?df = "\<lparr>df_columns = [lit ''region'', lit ''sales''], df_rows = [[3, 10::nat]]\<rparr>"
  let ?res = "\<lparr>df_columns = [lit ''region''], df_rows = [[3::nat]]\<rparr>"
  let ?w = "\<lparr>uploaded_file = Some (Inr ?df), button = True, text_input = lit ''total sales by region''\<rparr>"
  let ?env = "scripted [Inr (lit ''SELECT regoin FROM data''), Inr (lit ''SELECT region FROM data'')]
      [Inl (lit ''no column regoin''), Inr ?res]"
  let ?engine = "\<lparr>select_all = (\<lambda>d :: nat dataframe. d), catalog_error = (\<lambda>n. n)\<rparr>"
  let ?prev = "Some \<lparr>con_of = [lit ''data'' \<mapsto> Table ?old], columns_of = [lit ''old'']\<rparr>"
  let ?P = "map of_char (''\<newline>You are a senior SQL expert.\<newline>\<newline>Table: data\<newline>Columns: region, sales\<newline>\<newline>Rules:\<newline>- Output ONLY SQL\<newline>- Use correct aggregate functions\<newline>'' @
        ''- Use GROUP BY properly\<newline>- DuckDB compatible SQL only\<newline>- No explanations\<newline>\<newline>Question:\<newline>total sales by region\<newline>'')"
  let ?F = "map of_char (''\<newline>The following SQL caused an error:\<newline>\<newline>SQL:\<newline>SELECT regoin FROM data\<newline>\<newline>Error:\<newline>no column regoin\<newline>\<newline>Table columns:\<newline>region, sales\<newline>'' @
        ''\<newline>Fix the SQL so that it executes correctly.\<newline>Return ONLY corrected SQL.\<newline>'')"
  have s: "str_strip (lit ''SELECT regoin FROM data'') = lit ''SELECT regoin FROM data''"
      "str_strip (lit ''SELECT region FROM data'') = lit ''SELECT region FROM data''"
    by (simp_all add: str_strip_def lit_def isspace_def)
  have q: "lit ''total sales by region'' \<noteq> []"
    by (simp add: lit_def)
  have p: "sql_prompt_format (lit ''total sales by region'')
      (str_join (lit '', '') [lit ''region'', lit ''sales'']) = ?P"
    by (simp add: sql_prompt_format_def sql_prompt_head_def sql_prompt_rules_def lit_def)
  have f: "fix_prompt_format (lit ''SELECT regoin FROM data'') (lit ''no column regoin'')
      (str_join (lit '', '') [lit ''region'', lit ''sales'']) = ?F"
    by (simp add: fix_prompt_format_def fix_prompt_head_def fix_prompt_error_def
        fix_prompt_columns_def fix_prompt_tail_def lit_def)
  have run: "added [] (fst (script ?prev ?engine ?env ?w [])) =
     [Invoke ?P (Inr (lit ''SELECT regoin FROM data'')),
      Execute (lit ''SELECT regoin FROM data'') (Inl (lit ''no column regoin'')),
      Invoke ?F (Inr (lit ''SELECT region FROM data'')),
      Execute (lit ''SELECT region FROM data'') (Inr ?res)]"
    unfolding p [symmetric] f [symmetric]
    by (simp add: script_def upload_eq run_query_def generate_sql_def execute_with_retry_def
        default_attempts scripted_def nth_or_def Let_def str_replace_id s q added_def)
  show ?thesis
    using prompts_carry_the_current_columns
      [of ?w ?df ?F "Inr (lit ''SELECT region FROM data'')" "[]" ?prev ?engine ?env] run
    by simp
qed

end
